theory Spec2Isabelle
  imports Main "HOL-Library.Word"
begin

section \<open>Python values and the builtins the client relies on\<close>

text \<open>
  The library works on parsed JSON: \<open>None\<close>, booleans, integers, floats, strings, lists
  and dictionaries with string keys. A dictionary is an association list in insertion
  order (Python dictionaries keep it); a lookup takes the first binding of a key. A
  string is a list of characters, each standing for one code point below 256. A float is
  its IEEE-754 binary64 bit pattern.
\<close>

type_synonym byte = "8 word"
type_synonym pyfloat = "64 word"

datatype json =
    JNull
  | JBool bool
  | JInt int
  | JFloat pyfloat
  | JStr string
  | JArr "json list"
  | JObj "(string \<times> json) list"

type_synonym pydict = "(string \<times> json) list"

text \<open>Exceptions are values; the string is the message (or the missing key).\<close>

datatype error =
    TypeError string
  | ValueError string
  | KeyError string
  | AttributeError string
  | OSError string
  | RuntimeError string
  | RecursionError string
  | OverflowError string
  | HTTPError string

text \<open>
  Three builtins of the Python runtime are not code of this repository and are not
  re-implemented here: the shortest round-trip \<open>repr\<close> of a float, and \<open>int()\<close> of a
  float and of a string. They are a parameter of every function that reaches them. So are
  two limits of the interpreter that make \<open>str\<close> raise:

  \<^item> \<open>int_max_str_digits\<close> is \<open>sys.get_int_max_str_digits()\<close>, 4300 by default from
    CPython 3.11 on and 0 when there is no limit: \<open>str\<close> of an integer with more decimal
    digits raises \<open>ValueError\<close>;

  \<^item> \<open>repr_depth\<close> is the number of nested lists and dictionaries that \<open>str\<close> can enter
    where it is called; one level more exhausts the recursion limit and raises
    \<open>RecursionError\<close>. It is taken to be the same wherever the library calls \<open>str\<close>.
\<close>

record py_runtime =
  float_repr :: "pyfloat \<Rightarrow> string"
  int_of_float :: "pyfloat \<Rightarrow> error + int"
  int_of_str :: "string \<Rightarrow> error + int"
  int_max_str_digits :: nat
  repr_depth :: nat

definition ebind :: "error + 'a \<Rightarrow> ('a \<Rightarrow> error + 'b) \<Rightarrow> error + 'b" where
  "ebind m f = (case m of Inl e \<Rightarrow> Inl e | Inr x \<Rightarrow> f x)"

subsection \<open>\<open>str\<close> and \<open>repr\<close>\<close>

fun nat_digits :: "nat \<Rightarrow> string" where
  "nat_digits n =
     (if n < 10 then [''0123456789'' ! n]
      else nat_digits (n div 10) @ [''0123456789'' ! (n mod 10)])"

text \<open>
  \<open>str\<close> of an integer: its decimal digits, after a minus sign when it is negative. The
  digits are counted without the sign against the limit of the runtime.
\<close>

definition int_str :: "py_runtime \<Rightarrow> int \<Rightarrow> error + string" where
  "int_str rt i =
     (let digits = nat_digits (nat \<bar>i\<bar>) in
      if 0 < int_max_str_digits rt \<and> int_max_str_digits rt < length digits
      then Inl (ValueError (''Exceeds the limit ('' @ nat_digits (int_max_str_digits rt)
                 @ '' digits) for integer string conversion; ''
                 @ ''use sys.set_int_max_str_digits() to increase the limit''))
      else Inr (if i < 0 then CHR ''-'' # digits else digits))"

definition hex2 :: "nat \<Rightarrow> string" where
  "hex2 n = [''0123456789abcdef'' ! ((n div 16) mod 16), ''0123456789abcdef'' ! (n mod 16)]"

text \<open>
  \<open>repr\<close> of a string: single quotes unless the string holds a single quote and no double
  quote; the quote and the backslash are escaped, tab, newline and carriage return have
  their letters, every other character that is not printable is written \<open>\xhh\<close>.
  Below 256 the printable characters are 32..126 and 161..255 without 173.
\<close>

definition repr_quote :: "string \<Rightarrow> char" where
  "repr_quote s =
     (if CHR 0x27 \<in> set s \<and> CHR 0x22 \<notin> set s then CHR 0x22 else CHR 0x27)"

definition repr_char :: "char \<Rightarrow> char \<Rightarrow> string" where
  "repr_char q c =
     (let n = (of_char c :: nat) in
      if c = q \<or> c = CHR 0x5C then [CHR 0x5C, c]
      else if c = CHR 0x09 then [CHR 0x5C, CHR ''t'']
      else if c = CHR 0x0A then [CHR 0x5C, CHR ''n'']
      else if c = CHR 0x0D then [CHR 0x5C, CHR ''r'']
      else if n < 32 \<or> n = 127 then [CHR 0x5C, CHR ''x''] @ hex2 n
      else if n < 127 then [c]
      else if n < 161 \<or> n = 173 then [CHR 0x5C, CHR ''x''] @ hex2 n
      else [c])"

definition repr_str :: "string \<Rightarrow> string" where
  "repr_str s = (let q = repr_quote s in q # concat (map (repr_char q) s) @ [q])"

fun py_join :: "string \<Rightarrow> string list \<Rightarrow> string" where
  "py_join sep [] = []"
| "py_join sep [x] = x"
| "py_join sep (x # y # ys) = x @ sep @ py_join sep (y # ys)"

text \<open>The results of a list of computations, or the first exception among them.\<close>

fun esequence :: "(error + 'a) list \<Rightarrow> error + 'a list" where
  "esequence [] = Inr []"
| "esequence (m # ms) = ebind m (\<lambda>x. ebind (esequence ms) (\<lambda>xs. Inr (x # xs)))"

text \<open>
  \<open>repr\<close> of a value, given the number of nested containers that can still be entered.
  The elements of a list and the values of a dictionary are printed from left to right,
  so the first exception is the one raised.
\<close>

primrec py_repr :: "py_runtime \<Rightarrow> json \<Rightarrow> nat \<Rightarrow> error + string" where
  "py_repr rt JNull = (\<lambda>depth. Inr ''None'')"
| "py_repr rt (JBool b) = (\<lambda>depth. Inr (if b then ''True'' else ''False''))"
| "py_repr rt (JInt i) = (\<lambda>depth. int_str rt i)"
| "py_repr rt (JFloat w) = (\<lambda>depth. Inr (float_repr rt w))"
| "py_repr rt (JStr s) = (\<lambda>depth. Inr (repr_str s))"
| "py_repr rt (JArr xs) =
     (\<lambda>depth. case depth of
        0 \<Rightarrow> Inl (RecursionError ''maximum recursion depth exceeded while getting the repr of an object'')
      | Suc d \<Rightarrow>
          ebind (esequence (map (\<lambda>r. r d) (map (py_repr rt) xs)))
            (\<lambda>items. Inr (''['' @ py_join '', '' items @ '']'')))"
| "py_repr rt (JObj kvs) =
     (\<lambda>depth. case depth of
        0 \<Rightarrow> Inl (RecursionError ''maximum recursion depth exceeded while getting the repr of an object'')
      | Suc d \<Rightarrow>
          ebind (esequence (map (\<lambda>kv. ebind (snd kv d) (\<lambda>v. Inr (repr_str (fst kv) @ '': '' @ v)))
                              (map (map_prod id (py_repr rt)) kvs)))
            (\<lambda>items. Inr (''{'' @ py_join '', '' items @ ''}'')))"

text \<open>
  \<open>str\<close> of a value: a string is itself, and every other value prints as its \<open>repr\<close>.
  An f-string formats a value the same way.
\<close>

definition py_str :: "py_runtime \<Rightarrow> json \<Rightarrow> error + string" where
  "py_str rt v = (case v of JStr s \<Rightarrow> Inr s | _ \<Rightarrow> py_repr rt v (repr_depth rt))"

subsection \<open>\<open>int()\<close>, \<open>list()\<close>, \<open>isinstance\<close>, truth values, \<open>dict.get\<close>\<close>

fun py_int :: "py_runtime \<Rightarrow> json \<Rightarrow> error + int" where
  "py_int rt (JInt i) = Inr i"
| "py_int rt (JBool b) = Inr (if b then 1 else 0)"
| "py_int rt (JFloat w) = int_of_float rt w"
| "py_int rt (JStr s) = int_of_str rt s"
| "py_int rt v = Inl (TypeError ''int() argument must be a string, a bytes-like object or a real number'')"

fun py_list :: "json \<Rightarrow> error + json list" where
  "py_list (JArr xs) = Inr xs"
| "py_list (JStr s) = Inr (map (\<lambda>c. JStr [c]) s)"
| "py_list (JObj kvs) = Inr (map (\<lambda>kv. JStr (fst kv)) kvs)"
| "py_list v = Inl (TypeError ''object is not iterable'')"

text \<open>\<open>bool\<close> is a subclass of \<open>int\<close>: \<open>isinstance(True, int)\<close> holds.\<close>

fun isinstance_int :: "json \<Rightarrow> bool" where
  "isinstance_int (JInt i) = True"
| "isinstance_int (JBool b) = True"
| "isinstance_int v = False"

fun isinstance_Mapping :: "json \<Rightarrow> bool" where
  "isinstance_Mapping (JObj kvs) = True"
| "isinstance_Mapping v = False"

fun isinstance_list :: "json \<Rightarrow> bool" where
  "isinstance_list (JArr xs) = True"
| "isinstance_list v = False"

fun truthy :: "json \<Rightarrow> bool" where
  "truthy JNull = False"
| "truthy (JBool b) = b"
| "truthy (JInt i) = (i \<noteq> 0)"
| "truthy (JFloat w) = (w \<noteq> 0 \<and> w \<noteq> 0x8000000000000000)"
| "truthy (JStr s) = (s \<noteq> [])"
| "truthy (JArr xs) = (xs \<noteq> [])"
| "truthy (JObj kvs) = (kvs \<noteq> [])"

definition dict_get_default :: "pydict \<Rightarrow> string \<Rightarrow> json \<Rightarrow> json" where
  "dict_get_default d k dflt = (case map_of d k of None \<Rightarrow> dflt | Some v \<Rightarrow> v)"

definition dict_get :: "pydict \<Rightarrow> string \<Rightarrow> json" where
  "dict_get d k = dict_get_default d k JNull"

definition dict_item :: "pydict \<Rightarrow> string \<Rightarrow> error + json" where
  "dict_item d k = (case map_of d k of None \<Rightarrow> Inl (KeyError k) | Some v \<Rightarrow> Inr v)"

section \<open>Streaming events (merlin/api/responses/streaming\_events.py)\<close>

subsection \<open>EventTypes\<close>

definition RESPONSE_CREATED :: string where "RESPONSE_CREATED = ''response.created''"
definition RESPONSE_IN_PROGRESS :: string where "RESPONSE_IN_PROGRESS = ''response.in_progress''"
definition RESPONSE_COMPLETED :: string where "RESPONSE_COMPLETED = ''response.completed''"
definition RESPONSE_FAILED :: string where "RESPONSE_FAILED = ''response.failed''"
definition RESPONSE_INCOMPLETE :: string where "RESPONSE_INCOMPLETE = ''response.incomplete''"
definition RESPONSE_QUEUED :: string where "RESPONSE_QUEUED = ''response.queued''"
definition OUTPUT_ITEM_ADDED :: string where "OUTPUT_ITEM_ADDED = ''response.output_item.added''"
definition OUTPUT_ITEM_DONE :: string where "OUTPUT_ITEM_DONE = ''response.output_item.done''"
definition CONTENT_PART_ADDED :: string where "CONTENT_PART_ADDED = ''response.content_part.added''"
definition CONTENT_PART_DONE :: string where "CONTENT_PART_DONE = ''response.content_part.done''"
definition OUTPUT_TEXT_DELTA :: string where "OUTPUT_TEXT_DELTA = ''response.output_text.delta''"
definition OUTPUT_TEXT_DONE :: string where "OUTPUT_TEXT_DONE = ''response.output_text.done''"
definition OUTPUT_TEXT_ANNOTATION_ADDED :: string where
  "OUTPUT_TEXT_ANNOTATION_ADDED = ''response.output_text.annotation.added''"
definition REFUSAL_DELTA :: string where "REFUSAL_DELTA = ''response.refusal.delta''"
definition REFUSAL_DONE :: string where "REFUSAL_DONE = ''response.refusal.done''"
definition FUNCTION_CALL_ARGS_DELTA :: string where
  "FUNCTION_CALL_ARGS_DELTA = ''response.function_call_arguments.delta''"
definition FUNCTION_CALL_ARGS_DONE :: string where
  "FUNCTION_CALL_ARGS_DONE = ''response.function_call_arguments.done''"
definition FILE_SEARCH_IN_PROGRESS :: string where
  "FILE_SEARCH_IN_PROGRESS = ''response.file_search_call.in_progress''"
definition FILE_SEARCH_SEARCHING :: string where
  "FILE_SEARCH_SEARCHING = ''response.file_search_call.searching''"
definition FILE_SEARCH_COMPLETED :: string where
  "FILE_SEARCH_COMPLETED = ''response.file_search_call.completed''"
definition WEB_SEARCH_IN_PROGRESS :: string where
  "WEB_SEARCH_IN_PROGRESS = ''response.web_search_call.in_progress''"
definition WEB_SEARCH_SEARCHING :: string where
  "WEB_SEARCH_SEARCHING = ''response.web_search_call.searching''"
definition WEB_SEARCH_COMPLETED :: string where
  "WEB_SEARCH_COMPLETED = ''response.web_search_call.completed''"
definition REASONING_SUMMARY_PART_ADDED :: string where
  "REASONING_SUMMARY_PART_ADDED = ''response.reasoning_summary_part.added''"
definition REASONING_SUMMARY_PART_DONE :: string where
  "REASONING_SUMMARY_PART_DONE = ''response.reasoning_summary_part.done''"
definition REASONING_SUMMARY_TEXT_DELTA :: string where
  "REASONING_SUMMARY_TEXT_DELTA = ''response.reasoning_summary_text.delta''"
definition REASONING_SUMMARY_TEXT_DONE :: string where
  "REASONING_SUMMARY_TEXT_DONE = ''response.reasoning_summary_text.done''"
definition REASONING_TEXT_DELTA :: string where
  "REASONING_TEXT_DELTA = ''response.reasoning_text.delta''"
definition REASONING_TEXT_DONE :: string where
  "REASONING_TEXT_DONE = ''response.reasoning_text.done''"
definition IMAGE_GEN_COMPLETED :: string where
  "IMAGE_GEN_COMPLETED = ''response.image_generation_call.completed''"
definition IMAGE_GEN_GENERATING :: string where
  "IMAGE_GEN_GENERATING = ''response.image_generation_call.generating''"
definition IMAGE_GEN_IN_PROGRESS :: string where
  "IMAGE_GEN_IN_PROGRESS = ''response.image_generation_call.in_progress''"
definition IMAGE_GEN_PARTIAL_IMAGE :: string where
  "IMAGE_GEN_PARTIAL_IMAGE = ''response.image_generation_call.partial_image''"
definition MCP_ARGS_DELTA :: string where "MCP_ARGS_DELTA = ''response.mcp_call_arguments.delta''"
definition MCP_ARGS_DONE :: string where "MCP_ARGS_DONE = ''response.mcp_call_arguments.done''"
definition MCP_COMPLETED :: string where "MCP_COMPLETED = ''response.mcp_call.completed''"
definition MCP_FAILED :: string where "MCP_FAILED = ''response.mcp_call.failed''"
definition MCP_IN_PROGRESS :: string where "MCP_IN_PROGRESS = ''response.mcp_call.in_progress''"
definition MCP_LIST_TOOLS_COMPLETED :: string where
  "MCP_LIST_TOOLS_COMPLETED = ''response.mcp_list_tools.completed''"
definition MCP_LIST_TOOLS_FAILED :: string where
  "MCP_LIST_TOOLS_FAILED = ''response.mcp_list_tools.failed''"
definition MCP_LIST_TOOLS_IN_PROGRESS :: string where
  "MCP_LIST_TOOLS_IN_PROGRESS = ''response.mcp_list_tools.in_progress''"
definition CI_IN_PROGRESS :: string where
  "CI_IN_PROGRESS = ''response.code_interpreter_call.in_progress''"
definition CI_INTERPRETING :: string where
  "CI_INTERPRETING = ''response.code_interpreter_call.interpreting''"
definition CI_COMPLETED :: string where
  "CI_COMPLETED = ''response.code_interpreter_call.completed''"
definition CI_CODE_DELTA :: string where
  "CI_CODE_DELTA = ''response.code_interpreter_call_code.delta''"
definition CI_CODE_DONE :: string where
  "CI_CODE_DONE = ''response.code_interpreter_call_code.done''"
definition CUSTOM_TOOL_INPUT_DELTA :: string where
  "CUSTOM_TOOL_INPUT_DELTA = ''response.custom_tool_call_input.delta''"
definition CUSTOM_TOOL_INPUT_DONE :: string where
  "CUSTOM_TOOL_INPUT_DONE = ''response.custom_tool_call_input.done''"
definition ERROR :: string where "ERROR = ''error''"

text \<open>The constants of the class, in the order of the source.\<close>

definition event_types :: "string list" where
  "event_types =
    [RESPONSE_CREATED, RESPONSE_IN_PROGRESS, RESPONSE_COMPLETED, RESPONSE_FAILED,
     RESPONSE_INCOMPLETE, RESPONSE_QUEUED, OUTPUT_ITEM_ADDED, OUTPUT_ITEM_DONE,
     CONTENT_PART_ADDED, CONTENT_PART_DONE, OUTPUT_TEXT_DELTA, OUTPUT_TEXT_DONE,
     OUTPUT_TEXT_ANNOTATION_ADDED, REFUSAL_DELTA, REFUSAL_DONE, FUNCTION_CALL_ARGS_DELTA,
     FUNCTION_CALL_ARGS_DONE, FILE_SEARCH_IN_PROGRESS, FILE_SEARCH_SEARCHING,
     FILE_SEARCH_COMPLETED, WEB_SEARCH_IN_PROGRESS, WEB_SEARCH_SEARCHING,
     WEB_SEARCH_COMPLETED, REASONING_SUMMARY_PART_ADDED, REASONING_SUMMARY_PART_DONE,
     REASONING_SUMMARY_TEXT_DELTA, REASONING_SUMMARY_TEXT_DONE, REASONING_TEXT_DELTA,
     REASONING_TEXT_DONE, IMAGE_GEN_COMPLETED, IMAGE_GEN_GENERATING, IMAGE_GEN_IN_PROGRESS,
     IMAGE_GEN_PARTIAL_IMAGE, MCP_ARGS_DELTA, MCP_ARGS_DONE, MCP_COMPLETED, MCP_FAILED,
     MCP_IN_PROGRESS, MCP_LIST_TOOLS_COMPLETED, MCP_LIST_TOOLS_FAILED,
     MCP_LIST_TOOLS_IN_PROGRESS, CI_IN_PROGRESS, CI_INTERPRETING, CI_COMPLETED,
     CI_CODE_DELTA, CI_CODE_DONE, CUSTOM_TOOL_INPUT_DELTA, CUSTOM_TOOL_INPUT_DONE, ERROR]"

subsection \<open>StreamEvent\<close>

text \<open>
  The dataclass annotates its fields (\<open>Optional[str]\<close>, \<open>Optional[int]\<close>, ...), but
  \<open>from_dict\<close> stores whatever the event holds, so a field is a Python value and \<open>JNull\<close>
  is Python's \<open>None\<close>. Only \<open>type\<close> is always a string and \<open>raw\<close> always a dictionary.
  The field \<open>text\<close> of the source is \<open>text'\<close> here.
\<close>

record StreamEvent =
  type :: string
  sequence_number :: json
  response :: json
  item_id :: json
  output_index :: json
  content_index :: json
  summary_index :: json
  delta :: json
  text' :: json
  refusal :: json
  arguments :: json
  code :: json
  partial_image_b64 :: json
  partial_image_index :: json
  annotation :: json
  annotation_index :: json
  logprobs :: json
  error_code :: json
  error_message :: json
  error_param :: json
  raw :: pydict

definition from_dict :: "py_runtime \<Rightarrow> pydict \<Rightarrow> error + StreamEvent" where
  "from_dict rt data =
    ebind (py_str rt (dict_get_default data ''type'' (JStr '''')))
       (\<lambda>event_type.
     let seq = dict_get data ''sequence_number''
     in
     ebind (if isinstance_int seq then map_sum id JInt (py_int rt seq) else Inr JNull)
       (\<lambda>sequence_number.
     let response = dict_get data ''response'';
         item_id = dict_get data ''item_id'';
         output_index = dict_get data ''output_index'';
         content_index = dict_get data ''content_index'';
         summary_index = dict_get data ''summary_index'';
         delta = dict_get data ''delta'';
         text = dict_get data ''text'';
         refusal = dict_get data ''refusal'';
         arguments = dict_get data ''arguments'';
         code = dict_get data ''code'';
         partial_image_b64 = dict_get data ''partial_image_b64'';
         partial_image_index = dict_get data ''partial_image_index'';
         annotation = dict_get data ''annotation'';
         annotation_index = dict_get data ''annotation_index'';
         logprobs = dict_get data ''logprobs'';
         error_code = (if event_type = ERROR then dict_get data ''code'' else JNull);
         error_message = (if event_type = ERROR then dict_get data ''message'' else JNull);
         error_param = (if event_type = ERROR then dict_get data ''param'' else JNull)
     in
     ebind (if isinstance_list logprobs then map_sum id JArr (py_list logprobs) else Inr JNull)
       (\<lambda>logprobs_list.
     Inr \<lparr> type = event_type,
           sequence_number = sequence_number,
           response = (if isinstance_Mapping response then response else JNull),
           item_id = item_id,
           output_index = output_index,
           content_index = content_index,
           summary_index = summary_index,
           delta = delta,
           text' = text,
           refusal = refusal,
           arguments = arguments,
           code = code,
           partial_image_b64 = partial_image_b64,
           partial_image_index = partial_image_index,
           annotation = (if isinstance_Mapping annotation then annotation else JNull),
           annotation_index = annotation_index,
           logprobs = logprobs_list,
           error_code = error_code,
           error_message = error_message,
           error_param = error_param,
           raw = data \<rparr>)))"

definition is_error :: "StreamEvent \<Rightarrow> bool" where
  "is_error e = (type e = ERROR)"

definition is_terminal :: "StreamEvent \<Rightarrow> bool" where
  "is_terminal e =
     (type e \<in> {RESPONSE_COMPLETED, RESPONSE_FAILED, RESPONSE_INCOMPLETE, ERROR})"

definition parse_stream_event :: "py_runtime \<Rightarrow> pydict \<Rightarrow> error + StreamEvent" where
  "parse_stream_event rt data = from_dict rt data"

subsection \<open>Properties of the decoder\<close>

declare nat_digits.simps [simp del]

lemma digit_nth_mem: "n < 10 \<Longrightarrow> ''0123456789'' ! n \<in> set ''0123456789''"
  by (rule nth_mem) simp

lemma nat_digits_set: "set (nat_digits n) \<subseteq> set ''0123456789''"
proof (induction n rule: nat_digits.induct)
  case (1 n)
  show ?case
  proof (cases "n < 10")
    case True
    then show ?thesis using digit_nth_mem [of n] by (subst nat_digits.simps) simp
  next
    case False
    have "n mod 10 < 10" by simp
    then have "''0123456789'' ! (n mod 10) \<in> set ''0123456789''" by (rule digit_nth_mem)
    with False "1.IH" show ?thesis by (subst nat_digits.simps) simp
  qed
qed

lemma nat_digits_no_e: "CHR ''e'' \<notin> set (nat_digits n)"
proof
  assume "CHR ''e'' \<in> set (nat_digits n)"
  then have "CHR ''e'' \<in> set ''0123456789''" using nat_digits_set [of n] by blast
  then show False by simp
qed

lemma int_str_not_error: "int_str rt i \<noteq> Inr ''error''"
proof
  assume a: "int_str rt i = Inr ''error''"
  have e: "CHR ''e'' \<in> set ''error''" by simp
  show False
  proof (cases "i < 0")
    case True
    with a show False by (simp add: int_str_def Let_def split: if_splits)
  next
    case False
    with a have "nat_digits (nat \<bar>i\<bar>) = ''error''"
      by (simp add: int_str_def Let_def split: if_splits)
    with e show False using nat_digits_no_e [of "nat \<bar>i\<bar>"] by metis
  qed
qed

lemma py_str_error_iff:
  assumes "\<forall>w. float_repr rt w \<noteq> ''error''"
  shows "py_str rt v = Inr ''error'' \<longleftrightarrow> v = JStr ''error''"
proof (cases v)
  case (JInt i)
  then show ?thesis by (simp add: py_str_def int_str_not_error)
next
  case (JArr xs)
  then show ?thesis by (simp add: py_str_def ebind_def split: nat.split sum.split)
next
  case (JObj kvs)
  then show ?thesis by (simp add: py_str_def ebind_def split: nat.split sum.split)
qed (use assms in \<open>simp_all add: py_str_def\<close>)

lemma py_str_scalar:
  "py_str rt JNull = Inr ''None''"
  "py_str rt (JBool b) = Inr (if b then ''True'' else ''False'')"
  "py_str rt (JFloat w) = Inr (float_repr rt w)"
  "py_str rt (JStr s) = Inr s"
  by (simp_all add: py_str_def)




text \<open>
  A runtime to evaluate examples with: every float prints as \<open>nan\<close>, \<open>int()\<close> of a float
  or of a string raises, the limit on the digits of an integer is CPython's default, and
  \<open>str\<close> can enter a thousand nested containers.
\<close>

definition sample_runtime :: py_runtime where
  "sample_runtime = \<lparr> float_repr = (\<lambda>w. ''nan''), int_of_float = (\<lambda>w. Inl (ValueError ''cannot convert float NaN to integer'')), int_of_str = (\<lambda>s. Inl (ValueError ''invalid literal for int() with base 10'')), int_max_str_digits = 4300, repr_depth = 1000 \<rparr>"


lemma sequence_number_ok:
  "\<exists>s. (if isinstance_int v then map_sum id JInt (py_int rt v) else Inr JNull) = Inr s
       \<and> (v = JNull \<longrightarrow> s = JNull)"
  by (cases v) simp_all

lemma logprobs_ok:
  "\<exists>l. (if isinstance_list v then map_sum id JArr (py_list v) else Inr JNull) = Inr l
       \<and> (v = JNull \<longrightarrow> l = JNull)"
  by (cases v) simp_all

lemma from_dict_Inl:
  "py_str rt (dict_get_default x ''type'' (JStr [])) = Inl err \<Longrightarrow> from_dict rt x = Inl err"
  by (simp add: from_dict_def ebind_def)

lemma from_dict_Inr:
  assumes "py_str rt (dict_get_default x ''type'' (JStr [])) = Inr t"
  shows "\<exists>s l. from_dict rt x =
      Inr \<lparr> type = t,
            sequence_number = s,
            response = (if isinstance_Mapping (dict_get x ''response'')
                        then dict_get x ''response'' else JNull),
            item_id = dict_get x ''item_id'',
            output_index = dict_get x ''output_index'',
            content_index = dict_get x ''content_index'',
            summary_index = dict_get x ''summary_index'',
            delta = dict_get x ''delta'',
            text' = dict_get x ''text'',
            refusal = dict_get x ''refusal'',
            arguments = dict_get x ''arguments'',
            code = dict_get x ''code'',
            partial_image_b64 = dict_get x ''partial_image_b64'',
            partial_image_index = dict_get x ''partial_image_index'',
            annotation = (if isinstance_Mapping (dict_get x ''annotation'')
                          then dict_get x ''annotation'' else JNull),
            annotation_index = dict_get x ''annotation_index'',
            logprobs = l,
            error_code = (if t = ERROR then dict_get x ''code'' else JNull),
            error_message = (if t = ERROR then dict_get x ''message'' else JNull),
            error_param = (if t = ERROR then dict_get x ''param'' else JNull),
            raw = x \<rparr>
      \<and> (dict_get x ''sequence_number'' = JNull \<longrightarrow> s = JNull)
      \<and> (dict_get x ''logprobs'' = JNull \<longrightarrow> l = JNull)"
proof -
  obtain s where s: "(if isinstance_int (dict_get x ''sequence_number'')
        then map_sum id JInt (py_int rt (dict_get x ''sequence_number'')) else Inr JNull) = Inr s"
      "dict_get x ''sequence_number'' = JNull \<longrightarrow> s = JNull"
    using sequence_number_ok by blast
  obtain l where l: "(if isinstance_list (dict_get x ''logprobs'')
        then map_sum id JArr (py_list (dict_get x ''logprobs'')) else Inr JNull) = Inr l"
      "dict_get x ''logprobs'' = JNull \<longrightarrow> l = JNull"
    using logprobs_ok by blast
  show ?thesis
    unfolding from_dict_def Let_def assms s(1) l(1) ebind_def
    using s(2) l(2) by simp
qed

lemma from_dict_fields:
  assumes "from_dict rt x = Inr e"
  shows "\<exists>t. py_str rt (dict_get_default x ''type'' (JStr [])) = Inr t \<and> type e = t \<and>
           raw e = x \<and>
           error_code e = (if t = ERROR then dict_get x ''code'' else JNull) \<and>
           error_message e = (if t = ERROR then dict_get x ''message'' else JNull) \<and>
           error_param e = (if t = ERROR then dict_get x ''param'' else JNull)"
proof (cases "py_str rt (dict_get_default x ''type'' (JStr []))")
  case (Inl err)
  then show ?thesis using assms from_dict_Inl [of rt x err] by simp
next
  case (Inr t)
  then show ?thesis using assms from_dict_Inr [OF Inr] by auto
qed

lemma from_dict_succeeds_iff:
  "(case py_str rt (dict_get_default x ''type'' (JStr [])) of
      Inl err \<Rightarrow> from_dict rt x = Inl err
    | Inr t \<Rightarrow> (\<exists>e. from_dict rt x = Inr e \<and> type e = t))"
proof (cases "py_str rt (dict_get_default x ''type'' (JStr []))")
  case (Inl err)
  then show ?thesis using from_dict_Inl [of rt x err] by simp
next
  case (Inr t)
  then show ?thesis using from_dict_Inr [OF Inr] by auto
qed

lemma type_is_error_iff:
  assumes "\<forall>w. float_repr rt w \<noteq> ''error''"
  shows "py_str rt (dict_get_default x ''type'' (JStr [])) = Inr ERROR
           \<longleftrightarrow> map_of x ''type'' = Some (JStr ''error'')"
  using py_str_error_iff [OF assms]
  by (simp add: ERROR_def dict_get_default_def py_str_def split: option.split)

lemma from_dict_string_type:
  assumes "map_of x ''type'' = None \<or> (\<exists>t. map_of x ''type'' = Some (JStr t))"
  shows "\<exists>e. from_dict rt x = Inr e"
proof -
  from assms have "\<exists>t. py_str rt (dict_get_default x ''type'' (JStr [])) = Inr t"
    by (auto simp: dict_get_default_def py_str_def)
  then show ?thesis using from_dict_Inr by blast
qed

text \<open>
  Claim C4 (raw preservation). For every input mapping \<open>x\<close>, the \<open>raw\<close> field of the
  event decoded from \<open>x\<close> is \<open>x\<close> itself, whatever the event type and whichever typed
  fields are populated. An event is decoded whenever \<open>x\<close> holds a string under \<open>type\<close>
  or has no such key; in general, exactly when \<open>str\<close> of the value under \<open>type\<close>
  returns: when \<open>str\<close> raises, \<open>from_dict\<close> raises the same exception and there is no
  event.
\<close>

theorem raw_preserved:
  "(\<forall>e. from_dict rt x = Inr e \<longrightarrow> raw e = x) \<and>
   (map_of x ''type'' = None \<or> (\<exists>t. map_of x ''type'' = Some (JStr t)) \<longrightarrow>
      (\<exists>e. from_dict rt x = Inr e \<and> raw e = x)) \<and>
   (case py_str rt (dict_get_default x ''type'' (JStr [])) of
      Inl err \<Rightarrow> from_dict rt x = Inl err
    | Inr t \<Rightarrow> (\<exists>e. from_dict rt x = Inr e \<and> raw e = x))"
proof (intro conjI)
  show r: "\<forall>e. from_dict rt x = Inr e \<longrightarrow> raw e = x"
    using from_dict_fields [of rt x] by blast
  show "map_of x ''type'' = None \<or> (\<exists>t. map_of x ''type'' = Some (JStr t)) \<longrightarrow>
      (\<exists>e. from_dict rt x = Inr e \<and> raw e = x)"
    using from_dict_string_type [of x rt] r by blast
  show "case py_str rt (dict_get_default x ''type'' (JStr [])) of
      Inl err \<Rightarrow> from_dict rt x = Inl err
    | Inr t \<Rightarrow> (\<exists>e. from_dict rt x = Inr e \<and> raw e = x)"
    using from_dict_succeeds_iff [of rt x] r by (auto split: sum.splits)
qed

theorem raw_preserved_witness:
  "\<exists>e. from_dict sample_runtime
          [(''type'', JStr ''response.created''), (''sequence_number'', JInt 0),
           (''response'', JObj [(''id'', JStr ''resp_1'')]), (''vendor_extension'', JArr [JInt 1])]
        = Inr e \<and>
        raw e = [(''type'', JStr ''response.created''), (''sequence_number'', JInt 0),
           (''response'', JObj [(''id'', JStr ''resp_1'')]), (''vendor_extension'', JArr [JInt 1])]"
  using raw_preserved [of sample_runtime
          "[(''type'', JStr ''response.created''), (''sequence_number'', JInt 0),
           (''response'', JObj [(''id'', JStr ''resp_1'')]), (''vendor_extension'', JArr [JInt 1])]"]
  by auto

text \<open>
  Claim C1 (error field isolation). For every input mapping \<open>x\<close> and the event decoded
  from it: when the value of \<open>x\<close>'s key \<open>type\<close> is the string \<open>error\<close>, the fields
  \<open>error_code\<close>, \<open>error_message\<close> and \<open>error_param\<close> of the event are what \<open>x.get\<close>
  gives for \<open>code\<close>, \<open>message\<close> and \<open>param\<close>; when \<open>type\<close> is missing or is any
  other value, the three fields are \<open>None\<close>, whatever \<open>x\<close> holds under \<open>code\<close>,
  \<open>message\<close> and \<open>param\<close>. An event is decoded whenever \<open>x\<close> holds a string under
  \<open>type\<close> (an error event always is) or has no such key; in general, exactly when
  \<open>str\<close> of the value under \<open>type\<close> returns. The decoder compares \<open>str(type)\<close> with
  \<open>error\<close>; the hypothesis says that no float prints as \<open>error\<close>.
\<close>

theorem error_fields_isolated:
  assumes "\<forall>w. float_repr rt w \<noteq> ''error''"
  shows "(\<forall>e. from_dict rt x = Inr e \<longrightarrow>
            (if map_of x ''type'' = Some (JStr ''error'')
             then error_code e = dict_get x ''code'' \<and>
                  error_message e = dict_get x ''message'' \<and>
                  error_param e = dict_get x ''param''
             else error_code e = JNull \<and> error_message e = JNull \<and> error_param e = JNull)) \<and>
         (map_of x ''type'' = None \<or> (\<exists>t. map_of x ''type'' = Some (JStr t)) \<longrightarrow>
            (\<exists>e. from_dict rt x = Inr e)) \<and>
         (case py_str rt (dict_get_default x ''type'' (JStr [])) of
            Inl err \<Rightarrow> from_dict rt x = Inl err
          | Inr t \<Rightarrow> (\<exists>e. from_dict rt x = Inr e))"
proof (intro conjI allI impI)
  fix e
  assume e: "from_dict rt x = Inr e"
  obtain t where t: "py_str rt (dict_get_default x ''type'' (JStr [])) = Inr t"
    and c: "error_code e = (if t = ERROR then dict_get x ''code'' else JNull)"
    and m: "error_message e = (if t = ERROR then dict_get x ''message'' else JNull)"
    and p: "error_param e = (if t = ERROR then dict_get x ''param'' else JNull)"
    using from_dict_fields [OF e] by blast
  have "t = ERROR \<longleftrightarrow> map_of x ''type'' = Some (JStr ''error'')"
    using type_is_error_iff [OF assms, of x] t by simp
  with c m p show "if map_of x ''type'' = Some (JStr ''error'')
             then error_code e = dict_get x ''code'' \<and>
                  error_message e = dict_get x ''message'' \<and>
                  error_param e = dict_get x ''param''
             else error_code e = JNull \<and> error_message e = JNull \<and> error_param e = JNull"
    by simp
next
  assume "map_of x ''type'' = None \<or> (\<exists>t. map_of x ''type'' = Some (JStr t))"
  then show "\<exists>e. from_dict rt x = Inr e" by (rule from_dict_string_type)
next
  show "case py_str rt (dict_get_default x ''type'' (JStr [])) of
      Inl err \<Rightarrow> from_dict rt x = Inl err
    | Inr t \<Rightarrow> (\<exists>e. from_dict rt x = Inr e)"
    using from_dict_succeeds_iff [of rt x] by (auto split: sum.splits)
qed

theorem error_fields_isolated_witness:
  "(\<forall>w. float_repr sample_runtime w \<noteq> ''error'') \<and>
   (\<exists>e. from_dict sample_runtime [(''type'', JStr ''error''), (''code'', JStr ''rate_limited''),
                        (''message'', JStr ''too many requests''), (''param'', JNull)] = Inr e \<and>
        error_code e = JStr ''rate_limited'' \<and> error_message e = JStr ''too many requests'' \<and>
        error_param e = JNull) \<and>
   (\<exists>e. from_dict sample_runtime [(''type'', JStr ''response.code_interpreter_call_code.delta''),
                        (''code'', JStr ''print(1)''), (''message'', JStr ''m''),
                        (''param'', JStr ''p'')] = Inr e \<and>
        code e = JStr ''print(1)'' \<and>
        error_code e = JNull \<and> error_message e = JNull \<and> error_param e = JNull)"
proof -
  have h: "\<forall>w. float_repr sample_runtime w \<noteq> ''error''" by (simp add: sample_runtime_def)
  have a: "\<exists>e. from_dict sample_runtime [(''type'', JStr ''error''), (''code'', JStr ''rate_limited''),
                        (''message'', JStr ''too many requests''), (''param'', JNull)] = Inr e \<and>
        error_code e = JStr ''rate_limited'' \<and> error_message e = JStr ''too many requests'' \<and>
        error_param e = JNull"
    using error_fields_isolated [OF h, of "[(''type'', JStr ''error''), (''code'', JStr ''rate_limited''),
                        (''message'', JStr ''too many requests''), (''param'', JNull)]"]
    by (auto simp: dict_get_def dict_get_default_def py_str_def)
  have t: "py_str sample_runtime (dict_get_default
             [(''type'', JStr ''response.code_interpreter_call_code.delta''),
              (''code'', JStr ''print(1)''), (''message'', JStr ''m''), (''param'', JStr ''p'')]
             ''type'' (JStr [])) = Inr ''response.code_interpreter_call_code.delta''"
    by (simp add: dict_get_default_def py_str_def)
  have b: "\<exists>e. from_dict sample_runtime [(''type'', JStr ''response.code_interpreter_call_code.delta''),
                        (''code'', JStr ''print(1)''), (''message'', JStr ''m''),
                        (''param'', JStr ''p'')] = Inr e \<and>
        code e = JStr ''print(1)'' \<and>
        error_code e = JNull \<and> error_message e = JNull \<and> error_param e = JNull"
    using error_fields_isolated [OF h, of "[(''type'', JStr ''response.code_interpreter_call_code.delta''),
                        (''code'', JStr ''print(1)''), (''message'', JStr ''m''),
                        (''param'', JStr ''p'')]"]
          from_dict_Inr [OF t]
    by (auto simp add: dict_get_def dict_get_default_def)
  from h a b show ?thesis by blast
qed

lemma dict_get_absent: "map_of x k = None \<Longrightarrow> dict_get x k = JNull"
  by (simp add: dict_get_def dict_get_default_def)

text \<open>
  Claim C2 (decoder totality). For every mapping \<open>x\<close> that holds a string under
  \<open>type\<close>, with any other keys and values, \<open>parse_stream_event\<close> (which is
  \<open>StreamEvent.from_dict\<close>) returns an event and raises nothing; the event's type is that
  string, and every field whose key is missing from \<open>x\<close> is \<open>None\<close> (\<open>JNull\<close>),
  which is neither \<open>JInt 0\<close> nor the empty string.
\<close>

theorem parse_stream_event_total:
  assumes "map_of x ''type'' = Some (JStr t)"
  shows "\<exists>e. parse_stream_event rt x = Inr e \<and> from_dict rt x = Inr e \<and> type e = t \<and>
     (map_of x ''sequence_number'' = None \<longrightarrow> sequence_number e = JNull) \<and>
     (map_of x ''response'' = None \<longrightarrow> response e = JNull) \<and>
     (map_of x ''item_id'' = None \<longrightarrow> item_id e = JNull) \<and>
     (map_of x ''output_index'' = None \<longrightarrow> output_index e = JNull) \<and>
     (map_of x ''content_index'' = None \<longrightarrow> content_index e = JNull) \<and>
     (map_of x ''summary_index'' = None \<longrightarrow> summary_index e = JNull) \<and>
     (map_of x ''delta'' = None \<longrightarrow> delta e = JNull) \<and>
     (map_of x ''text'' = None \<longrightarrow> text' e = JNull) \<and>
     (map_of x ''refusal'' = None \<longrightarrow> refusal e = JNull) \<and>
     (map_of x ''arguments'' = None \<longrightarrow> arguments e = JNull) \<and>
     (map_of x ''code'' = None \<longrightarrow> code e = JNull \<and> error_code e = JNull) \<and>
     (map_of x ''partial_image_b64'' = None \<longrightarrow> partial_image_b64 e = JNull) \<and>
     (map_of x ''partial_image_index'' = None \<longrightarrow> partial_image_index e = JNull) \<and>
     (map_of x ''annotation'' = None \<longrightarrow> annotation e = JNull) \<and>
     (map_of x ''annotation_index'' = None \<longrightarrow> annotation_index e = JNull) \<and>
     (map_of x ''logprobs'' = None \<longrightarrow> logprobs e = JNull) \<and>
     (map_of x ''message'' = None \<longrightarrow> error_message e = JNull) \<and>
     (map_of x ''param'' = None \<longrightarrow> error_param e = JNull)"
proof -
  have t: "py_str rt (dict_get_default x ''type'' (JStr [])) = Inr t"
    using assms by (simp add: dict_get_default_def py_str_def)
  obtain s l where e: "from_dict rt x =
      Inr \<lparr> type = t,
            sequence_number = s,
            response = (if isinstance_Mapping (dict_get x ''response'')
                        then dict_get x ''response'' else JNull),
            item_id = dict_get x ''item_id'',
            output_index = dict_get x ''output_index'',
            content_index = dict_get x ''content_index'',
            summary_index = dict_get x ''summary_index'',
            delta = dict_get x ''delta'',
            text' = dict_get x ''text'',
            refusal = dict_get x ''refusal'',
            arguments = dict_get x ''arguments'',
            code = dict_get x ''code'',
            partial_image_b64 = dict_get x ''partial_image_b64'',
            partial_image_index = dict_get x ''partial_image_index'',
            annotation = (if isinstance_Mapping (dict_get x ''annotation'')
                          then dict_get x ''annotation'' else JNull),
            annotation_index = dict_get x ''annotation_index'',
            logprobs = l,
            error_code = (if t = ERROR then dict_get x ''code'' else JNull),
            error_message = (if t = ERROR then dict_get x ''message'' else JNull),
            error_param = (if t = ERROR then dict_get x ''param'' else JNull),
            raw = x \<rparr>"
    and s: "dict_get x ''sequence_number'' = JNull \<longrightarrow> s = JNull"
    and l: "dict_get x ''logprobs'' = JNull \<longrightarrow> l = JNull"
    using from_dict_Inr [OF t] by blast
  show ?thesis
    unfolding parse_stream_event_def e
    using s l by (simp add: dict_get_absent)
qed

theorem parse_stream_event_total_witness:
  "map_of [(''type'', JStr ''response.output_text.delta''), (''delta'', JStr ''Hello''),
           (''item_id'', JStr ''item_1''), (''sequence_number'', JInt 4)] ''type''
     = Some (JStr ''response.output_text.delta'') \<and>
   (\<exists>e. parse_stream_event sample_runtime
          [(''type'', JStr ''response.output_text.delta''), (''delta'', JStr ''Hello''),
           (''item_id'', JStr ''item_1''), (''sequence_number'', JInt 4)] = Inr e \<and>
        type e = ''response.output_text.delta'' \<and> text' e = JNull \<and> response e = JNull \<and>
        error_code e = JNull \<and> logprobs e = JNull \<and> output_index e = JNull)"
proof -
  have h: "map_of [(''type'', JStr ''response.output_text.delta''), (''delta'', JStr ''Hello''),
           (''item_id'', JStr ''item_1''), (''sequence_number'', JInt 4)] ''type''
     = Some (JStr ''response.output_text.delta'')" by simp
  show ?thesis
    using parse_stream_event_total [OF h, of sample_runtime] by auto
qed

text \<open>
  Claim C3 (terminal predicate). An event is terminal exactly when its type is one of
  \<open>response.completed\<close>, \<open>response.failed\<close>, \<open>response.incomplete\<close> and
  \<open>error\<close>. Of the registered discriminators, these four are the only terminal ones; in
  particular \<open>response.output_text.delta\<close> and \<open>response.queued\<close> are not.
\<close>

theorem is_terminal_correct:
  "(is_terminal e \<longleftrightarrow>
      type e \<in> {''response.completed'', ''response.failed'', ''response.incomplete'', ''error''})
   \<and> filter (\<lambda>t. is_terminal (e\<lparr>type := t\<rparr>)) event_types =
       [''response.completed'', ''response.failed'', ''response.incomplete'', ''error'']
   \<and> \<not> is_terminal (e\<lparr>type := ''response.output_text.delta''\<rparr>)
   \<and> \<not> is_terminal (e\<lparr>type := ''response.queued''\<rparr>)"
  by (simp add: is_terminal_def event_types_def RESPONSE_CREATED_def RESPONSE_IN_PROGRESS_def
      RESPONSE_COMPLETED_def RESPONSE_FAILED_def RESPONSE_INCOMPLETE_def RESPONSE_QUEUED_def
      OUTPUT_ITEM_ADDED_def OUTPUT_ITEM_DONE_def CONTENT_PART_ADDED_def CONTENT_PART_DONE_def
      OUTPUT_TEXT_DELTA_def OUTPUT_TEXT_DONE_def OUTPUT_TEXT_ANNOTATION_ADDED_def
      REFUSAL_DELTA_def REFUSAL_DONE_def FUNCTION_CALL_ARGS_DELTA_def FUNCTION_CALL_ARGS_DONE_def
      FILE_SEARCH_IN_PROGRESS_def FILE_SEARCH_SEARCHING_def FILE_SEARCH_COMPLETED_def
      WEB_SEARCH_IN_PROGRESS_def WEB_SEARCH_SEARCHING_def WEB_SEARCH_COMPLETED_def
      REASONING_SUMMARY_PART_ADDED_def REASONING_SUMMARY_PART_DONE_def
      REASONING_SUMMARY_TEXT_DELTA_def REASONING_SUMMARY_TEXT_DONE_def REASONING_TEXT_DELTA_def
      REASONING_TEXT_DONE_def IMAGE_GEN_COMPLETED_def IMAGE_GEN_GENERATING_def
      IMAGE_GEN_IN_PROGRESS_def IMAGE_GEN_PARTIAL_IMAGE_def MCP_ARGS_DELTA_def MCP_ARGS_DONE_def
      MCP_COMPLETED_def MCP_FAILED_def MCP_IN_PROGRESS_def MCP_LIST_TOOLS_COMPLETED_def
      MCP_LIST_TOOLS_FAILED_def MCP_LIST_TOOLS_IN_PROGRESS_def CI_IN_PROGRESS_def
      CI_INTERPRETING_def CI_COMPLETED_def CI_CODE_DELTA_def CI_CODE_DONE_def
      CUSTOM_TOOL_INPUT_DELTA_def CUSTOM_TOOL_INPUT_DONE_def ERROR_def)




section \<open>Uploads (merlin/api/uploads.py)\<close>

subsection \<open>Byte sources\<close>

text \<open>
  A \<open>FileLike\<close> is a path (\<open>str\<close> or \<open>pathlib.Path\<close>), in-memory bytes (\<open>bytes\<close> or
  \<open>bytearray\<close>), or any other object. Of an object the code probes three attributes:
  \<open>read\<close>, \<open>fileno\<close> and \<open>name\<close>. An object with \<open>read\<close> is a finite stream: what it
  holds (bytes for a binary stream, text for a text stream), the position of the next
  read, whether \<open>seek\<close> works, and how its coming reads fall short. Reading and seeking
  change the object, so the functions below return it updated.
\<close>

datatype pydata = PyBytes "byte list" | PyStr string

fun pylen :: "pydata \<Rightarrow> nat" where
  "pylen (PyBytes b) = length b"
| "pylen (PyStr t) = length t"

fun pytake :: "nat \<Rightarrow> pydata \<Rightarrow> pydata" where
  "pytake n (PyBytes b) = PyBytes (take n b)"
| "pytake n (PyStr t) = PyStr (take n t)"

fun pydrop :: "nat \<Rightarrow> pydata \<Rightarrow> pydata" where
  "pydrop n (PyBytes b) = PyBytes (drop n b)"
| "pydrop n (PyStr t) = PyStr (drop n t)"

record stream =
  content :: pydata
  pos :: nat
  seekable :: bool
  short_reads :: "nat list"

text \<open>
  \<open>read(n)\<close> with \<open>n \<ge> 0\<close> returns at most \<open>n\<close> items from the position, as the
  \<open>io\<close> classes promise.
  \<open>io.BytesIO\<close> and a buffered binary file return \<open>n\<close> items, or all that is left when
  fewer are left. A raw stream (an unbuffered pipe or socket) may return fewer than that:
  \<open>short_reads\<close> lists, for the coming calls of \<open>read(n)\<close>, the most that each of them
  delivers; once the list is used up, reads are full. A bound of 0 makes \<open>read\<close> return
  nothing before the end, as a stream with no data at hand does. \<open>read()\<close> without a size
  (a negative \<open>n\<close>) returns all that is left. A \<open>read\<close> that raises is not modelled:
  it ends the call with its exception, after the requests made so far.
\<close>

definition stream_read :: "int \<Rightarrow> stream \<Rightarrow> pydata \<times> stream" where
  "stream_read n s =
     (let rest = pydrop (pos s) (content s) in
      if n < 0 then (rest, s\<lparr>pos := pos s + pylen rest\<rparr>)
      else (case short_reads s of
              [] \<Rightarrow>
                (let chunk = pytake (nat n) rest
                 in (chunk, s\<lparr>pos := pos s + pylen chunk\<rparr>))
            | k # ks \<Rightarrow>
                (let chunk = pytake (min (nat n) k) rest
                 in (chunk, s\<lparr>pos := pos s + pylen chunk, short_reads := ks\<rparr>))))"

text \<open>\<open>seek(0)\<close>; a stream that cannot seek raises \<open>io.UnsupportedOperation\<close>, an \<open>OSError\<close>.\<close>

definition stream_seek0 :: "stream \<Rightarrow> error + stream" where
  "stream_seek0 s =
     (if seekable s then Inr (s\<lparr>pos := 0\<rparr>) else Inl (OSError ''underlying stream is not seekable''))"

text \<open>
  What \<open>fileno()\<close> followed by \<open>os.fstat(...).st_size\<close> gives: an integer descriptor whose
  file has the given size, a value that is not an \<open>int\<close>, or an exception raised by
  either call. \<open>io.BytesIO.fileno\<close> raises \<open>io.UnsupportedOperation\<close>, an \<open>OSError\<close>;
  \<open>fileno()\<close> of a closed object raises \<open>ValueError\<close>; \<open>os.fstat\<close> of an integer that
  is no descriptor raises \<open>OSError\<close>, of one too large for a C int \<open>OverflowError\<close>.
  The constructor \<open>OSError\<close> stands for the class and its subclasses.
\<close>

datatype fileno_result = FilenoInt nat | FilenoOther | FilenoRaises error

definition is_OSError :: "error \<Rightarrow> bool" where
  "is_OSError e = (case e of OSError m \<Rightarrow> True | _ \<Rightarrow> False)"

record py_object =
  read_attr :: "stream option"
  fileno_attr :: "fileno_result option"
  name_attr :: "string option"

datatype file_like = PathLike string | BytesLike "byte list" | FileObj py_object

text \<open>The file system maps a path to the bytes of a regular file.\<close>

type_synonym filesystem = "string \<Rightarrow> byte list option"

definition getsize :: "filesystem \<Rightarrow> string \<Rightarrow> error + nat" where
  "getsize fs p = (case fs p of None \<Rightarrow> Inl (OSError p) | Some b \<Rightarrow> Inr (length b))"

definition open_rb :: "filesystem \<Rightarrow> string \<Rightarrow> error + py_object" where
  "open_rb fs p =
     (case fs p of
        None \<Rightarrow> Inl (OSError p)
      | Some b \<Rightarrow> Inr \<lparr> read_attr = Some \<lparr> content = PyBytes b, pos = 0, seekable = True, short_reads = [] \<rparr>,
                        fileno_attr = Some (FilenoInt (length b)),
                        name_attr = Some p \<rparr>)"

definition BytesIO :: "byte list \<Rightarrow> py_object" where
  "BytesIO b = \<lparr> read_attr = Some \<lparr> content = PyBytes b, pos = 0, seekable = True, short_reads = [] \<rparr>,
                 fileno_attr = Some (FilenoRaises (OSError ''fileno'')),
                 name_attr = None \<rparr>"

fun pydata_truthy :: "pydata \<Rightarrow> bool" where
  "pydata_truthy (PyBytes b) = (b \<noteq> [])"
| "pydata_truthy (PyStr t) = (t \<noteq> [])"

text \<open>A chunk read from a stream, as the \<open>FileLike\<close> it is when passed on.\<close>

fun pydata_file_like :: "pydata \<Rightarrow> file_like" where
  "pydata_file_like (PyBytes b) = BytesLike b"
| "pydata_file_like (PyStr t) = PathLike t"

subsection \<open>Dataclasses\<close>

record File =
  f_id :: json
  f_object :: json
  f_bytes :: int
  f_created_at :: int
  f_expires_at :: json
  f_filename :: json
  f_purpose :: json
  f_status :: json
  f_status_details :: json
  f_raw :: pydict

text \<open>Subscripting anything but a dictionary with a string raises \<open>TypeError\<close>.\<close>

definition File_from_dict :: "py_runtime \<Rightarrow> json \<Rightarrow> error + File" where
  "File_from_dict rt j =
    (case j of
       JObj d \<Rightarrow>
         ebind (dict_item d ''id'') (\<lambda>id'.
         ebind (ebind (dict_item d ''bytes'') (py_int rt)) (\<lambda>bytes.
         ebind (ebind (dict_item d ''created_at'') (py_int rt)) (\<lambda>created_at.
         ebind (dict_item d ''filename'') (\<lambda>filename.
         ebind (dict_item d ''purpose'') (\<lambda>purpose.
         Inr \<lparr> f_id = id',
               f_object = dict_get_default d ''object'' (JStr ''file''),
               f_bytes = bytes,
               f_created_at = created_at,
               f_expires_at = dict_get d ''expires_at'',
               f_filename = filename,
               f_purpose = purpose,
               f_status = dict_get d ''status'',
               f_status_details = dict_get d ''status_details'',
               f_raw = d \<rparr>)))))
     | _ \<Rightarrow> Inl (TypeError ''indices must be integers''))"

record Upload =
  u_id :: json
  u_object :: json
  u_bytes :: int
  u_created_at :: int
  u_filename :: json
  u_purpose :: json
  u_status :: json
  u_expires_at :: int
  u_file :: "File option"
  u_raw :: pydict

text \<open>\<open>d.get\<close> on anything but a dictionary raises \<open>AttributeError\<close>.\<close>

definition Upload_from_dict :: "py_runtime \<Rightarrow> json \<Rightarrow> error + Upload" where
  "Upload_from_dict rt j =
    (case j of
       JObj d \<Rightarrow>
         (let file_obj = dict_get d ''file'' in
          ebind (dict_item d ''id'') (\<lambda>id'.
          ebind (ebind (dict_item d ''bytes'') (py_int rt)) (\<lambda>bytes.
          ebind (ebind (dict_item d ''created_at'') (py_int rt)) (\<lambda>created_at.
          ebind (dict_item d ''filename'') (\<lambda>filename.
          ebind (dict_item d ''purpose'') (\<lambda>purpose.
          ebind (dict_item d ''status'') (\<lambda>status.
          ebind (ebind (dict_item d ''expires_at'') (py_int rt)) (\<lambda>expires_at.
          ebind (if truthy file_obj then map_sum id Some (File_from_dict rt file_obj)
                 else Inr None) (\<lambda>file.
          Inr \<lparr> u_id = id',
                u_object = dict_get_default d ''object'' (JStr ''upload''),
                u_bytes = bytes,
                u_created_at = created_at,
                u_filename = filename,
                u_purpose = purpose,
                u_status = status,
                u_expires_at = expires_at,
                u_file = file,
                u_raw = d \<rparr>)))))))))
     | _ \<Rightarrow> Inl (AttributeError ''get''))"

record UploadPart =
  p_id :: json
  p_object :: json
  p_created_at :: int
  p_upload_id :: json
  p_raw :: pydict

definition UploadPart_from_dict :: "py_runtime \<Rightarrow> json \<Rightarrow> error + UploadPart" where
  "UploadPart_from_dict rt j =
    (case j of
       JObj d \<Rightarrow>
         ebind (dict_item d ''id'') (\<lambda>id'.
         ebind (ebind (dict_item d ''created_at'') (py_int rt)) (\<lambda>created_at.
         ebind (dict_item d ''upload_id'') (\<lambda>upload_id.
         Inr \<lparr> p_id = id',
               p_object = dict_get_default d ''object'' (JStr ''upload.part''),
               p_created_at = created_at,
               p_upload_id = upload_id,
               p_raw = d \<rparr>)))
     | _ \<Rightarrow> Inl (TypeError ''indices must be integers''))"

subsection \<open>The transport\<close>

text \<open>
  \<open>self._http\<close> is the transport, an external collaborator: \<open>post\<close> takes a request and
  the transport's state and returns parsed JSON or raises, with the new state. It is a
  parameter. The client state pairs the transport's state with the log of the requests
  made so far and their outcomes; the log is what the properties below talk about.
  \<open>MerlinHTTPClient.post\<close> as declared in \<open>http_client.py\<close> takes \<open>json\<close> and \<open>params\<close>
  only; the form-data call that \<open>add_upload_part\<close> makes (\<open>data=...\<close>) is a capability of
  the transport taken as the parameter here.
\<close>

datatype body = JsonBody json | FormData "(string \<times> py_object) list" | NoBody

record request =
  req_path :: string
  req_body :: body

type_synonym 't transport = "request \<Rightarrow> 't \<Rightarrow> (error + json) \<times> 't"

record 't client =
  server :: 't
  calls :: "(request \<times> (error + json)) list"

definition http_post :: "'t transport \<Rightarrow> request \<Rightarrow> 't client \<Rightarrow> (error + json) \<times> 't client" where
  "http_post post req c =
     (let r = post req (server c)
      in (fst r, \<lparr> server = snd r, calls = calls c @ [(req, fst r)] \<rparr>))"

subsection \<open>UploadsMixin\<close>

definition coerce_file :: "filesystem \<Rightarrow> file_like \<Rightarrow> error + py_object" where
  "coerce_file fs file =
     (case file of
        FileObj ob \<Rightarrow>
          (if read_attr ob \<noteq> None then Inr ob
           else Inl (TypeError ''Unsupported file type for upload''))
      | PathLike p \<Rightarrow> open_rb fs p
      | BytesLike b \<Rightarrow> Inr (BytesIO b))"

text \<open>
  \<open>_infer_size\<close>. The \<open>try\<close> block around \<open>fileno()\<close> and \<open>os.fstat\<close> returns the
  size, or raises what they raise unless it is an \<open>OSError\<close>, or falls through to the
  fallback (no \<open>fileno\<close>, a descriptor that is not an \<open>int\<close>, an \<open>OSError\<close>).
\<close>

definition infer_size :: "filesystem \<Rightarrow> file_like \<Rightarrow> (error + nat) \<times> file_like" where
  "infer_size fs file =
     (case file of
        PathLike p \<Rightarrow> (getsize fs p, file)
      | BytesLike b \<Rightarrow> (Inr (length b), file)
      | FileObj ob \<Rightarrow>
          (case (case fileno_attr ob of
                   Some (FilenoInt st_size) \<Rightarrow> Some (Inr st_size)
                 | Some (FilenoRaises e) \<Rightarrow> (if is_OSError e then None else Some (Inl e))
                 | Some FilenoOther \<Rightarrow> None
                 | None \<Rightarrow> None) of
             Some outcome \<Rightarrow> (outcome, file)
           | None \<Rightarrow>
              (case read_attr ob of
                 Some s \<Rightarrow>
                   (let (data, s1) = stream_read (- 1) s in
                    case data of
                      PyBytes b \<Rightarrow>
                        (case stream_seek0 s1 of
                           Inl e \<Rightarrow> (Inl e, FileObj (ob\<lparr>read_attr := Some s1\<rparr>))
                         | Inr s2 \<Rightarrow> (Inr (length b), FileObj (ob\<lparr>read_attr := Some s2\<rparr>)))
                    | PyStr t \<Rightarrow>
                        (Inl (TypeError ''File-like object did not return bytes.''),
                         FileObj (ob\<lparr>read_attr := Some s1\<rparr>)))
               | None \<Rightarrow> (Inl (TypeError ''Unable to infer size''), file))))"

definition flatten_expires_after :: "json \<Rightarrow> json" where
  "flatten_expires_after expires_after = (if truthy expires_after then expires_after else JObj [])"

definition create_upload ::
  "py_runtime \<Rightarrow> 't transport \<Rightarrow> int \<Rightarrow> string \<Rightarrow> string \<Rightarrow> string \<Rightarrow> json \<Rightarrow> 't client
     \<Rightarrow> (error + Upload) \<times> 't client" where
  "create_upload rt post bytes filename mime_type purpose expires_after c =
     (let body = [(''purpose'', JStr purpose), (''filename'', JStr filename),
                  (''bytes'', JInt bytes), (''mime_type'', JStr mime_type)]
                 @ (if truthy expires_after
                    then [(''expires_after'', flatten_expires_after expires_after)] else []);
          r = http_post post \<lparr> req_path = ''/v1/uploads'', req_body = JsonBody (JObj body) \<rparr> c
      in (ebind (fst r) (Upload_from_dict rt), snd r))"

text \<open>
  The path of a request is an f-string over the upload id, which is whatever the server
  sent under \<open>id\<close>; formatting it is \<open>str\<close>, which can raise, and then no request is
  made.
\<close>

definition add_upload_part ::
  "py_runtime \<Rightarrow> filesystem \<Rightarrow> 't transport \<Rightarrow> json \<Rightarrow> file_like \<Rightarrow> 't client
     \<Rightarrow> (error + UploadPart) \<times> 't client" where
  "add_upload_part rt fs post upload_id data c =
     (case coerce_file fs data of
        Inl e \<Rightarrow> (Inl e, c)
      | Inr fobj \<Rightarrow>
          (case py_str rt upload_id of
             Inl e \<Rightarrow> (Inl e, c)
           | Inr uid \<Rightarrow>
              (let r = http_post post
                         \<lparr> req_path = ''/v1/uploads/'' @ uid @ ''/parts'',
                           req_body = FormData [(''data'', fobj)] \<rparr> c
               in (ebind (fst r) (UploadPart_from_dict rt), snd r))))"

definition complete_upload ::
  "py_runtime \<Rightarrow> 't transport \<Rightarrow> json \<Rightarrow> json list \<Rightarrow> string option \<Rightarrow> 't client
     \<Rightarrow> (error + Upload) \<times> 't client" where
  "complete_upload rt post upload_id part_ids md5 c =
     (let body = [(''part_ids'', JArr part_ids)]
                 @ (case md5 of None \<Rightarrow> [] | Some m \<Rightarrow> [(''md5'', JStr m)])
      in case py_str rt upload_id of
           Inl e \<Rightarrow> (Inl e, c)
         | Inr uid \<Rightarrow>
            (let r = http_post post
                       \<lparr> req_path = ''/v1/uploads/'' @ uid @ ''/complete'',
                         req_body = JsonBody (JObj body) \<rparr> c
             in (ebind (fst r) (Upload_from_dict rt), snd r)))"

definition cancel_upload ::
  "py_runtime \<Rightarrow> 't transport \<Rightarrow> json \<Rightarrow> 't client \<Rightarrow> (error + Upload) \<times> 't client" where
  "cancel_upload rt post upload_id c =
     (case py_str rt upload_id of
        Inl e \<Rightarrow> (Inl e, c)
      | Inr uid \<Rightarrow>
         (let r = http_post post
                    \<lparr> req_path = ''/v1/uploads/'' @ uid @ ''/cancel'',
                      req_body = NoBody \<rparr> c
          in (ebind (fst r) (Upload_from_dict rt), snd r)))"

lemma stream_read_decreases:
  "pydata_truthy (fst (stream_read n s)) \<Longrightarrow>
     pylen (content (snd (stream_read n s))) - pos (snd (stream_read n s))
       < pylen (content s) - pos s"
  by (cases "content s"; cases "short_reads s") (auto simp: stream_read_def Let_def)

function add_parts ::
  "py_runtime \<Rightarrow> filesystem \<Rightarrow> 't transport \<Rightarrow> json \<Rightarrow> int \<Rightarrow> stream \<Rightarrow> json list \<Rightarrow> 't client
     \<Rightarrow> (error + json list) \<times> stream \<times> 't client" where
  "add_parts rt fs post upload_id part_size fobj part_ids c =
     (let chunk = fst (stream_read part_size fobj);
          fobj' = snd (stream_read part_size fobj)
      in if \<not> pydata_truthy chunk then (Inr part_ids, fobj', c)
         else (case add_upload_part rt fs post upload_id (pydata_file_like chunk) c of
                 (Inl e, c') \<Rightarrow> (Inl e, fobj', c')
               | (Inr part, c') \<Rightarrow>
                   add_parts rt fs post upload_id part_size fobj' (part_ids @ [p_id part]) c'))"
  by pat_completeness auto
termination
  by (relation "measure (\<lambda>(rt, fs, post, upload_id, part_size, fobj, part_ids, c).
                   pylen (content fobj) - pos fobj)")
     (auto simp: stream_read_decreases)

declare add_parts.simps [simp del]

text \<open>
  \<open>multipart_upload\<close>. The result is the \<open>File\<close> or the exception, with the client state;
  the final state of the file object is dropped.
\<close>

definition multipart_upload ::
  "py_runtime \<Rightarrow> filesystem \<Rightarrow> 't transport \<Rightarrow> file_like \<Rightarrow> string \<Rightarrow> string \<Rightarrow> string option
     \<Rightarrow> int \<Rightarrow> json \<Rightarrow> string option \<Rightarrow> 't client \<Rightarrow> (error + File) \<times> 't client" where
  "multipart_upload rt fs post file purpose mime_type filename part_size expires_after md5 c =
    (case infer_size fs file of
       (Inl e, file1) \<Rightarrow> (Inl e, c)
     | (Inr size', file1) \<Rightarrow>
        (case coerce_file fs file1 of
           Inl e \<Rightarrow> (Inl e, c)
         | Inr fobj \<Rightarrow>
            (let filename' =
                   (case filename of
                      Some n \<Rightarrow> n
                    | None \<Rightarrow> (case name_attr fobj of Some n \<Rightarrow> n | None \<Rightarrow> ''upload.bin''))
             in
             case create_upload rt post (int size') filename' mime_type purpose expires_after c of
               (Inl e, c1) \<Rightarrow> (Inl e, c1)
             | (Inr upload, c1) \<Rightarrow>
                (case read_attr fobj of
                   None \<Rightarrow> (Inl (AttributeError ''read''), c1)
                 | Some s \<Rightarrow>
                    (case add_parts rt fs post (u_id upload) part_size s [] c1 of
                       (Inl e, s', c2) \<Rightarrow> (Inl e, c2)
                     | (Inr part_ids, s', c2) \<Rightarrow>
                        (case complete_upload rt post (u_id upload) part_ids md5 c2 of
                           (Inl e, c3) \<Rightarrow> (Inl e, c3)
                         | (Inr final_upload, c3) \<Rightarrow>
                            (case u_file final_upload of
                               None \<Rightarrow>
                                 (case py_str rt (u_id final_upload) of
                                    Inl e \<Rightarrow> (Inl e, c3)
                                  | Inr uid \<Rightarrow>
                                     (Inl (RuntimeError (''Upload '' @ uid
                                             @ '' completed but no file was returned.'')), c3))
                             | Some f \<Rightarrow> (Inr f, c3))))))))"

text \<open>
  A transport to evaluate examples with. Its state is the list of the sizes of the parts
  received. A form-data request is answered with a part whose id counts the parts; a
  JSON request to \<open>/v1/uploads\<close> with a pending upload; any other JSON request with the
  completed upload and its file; a request with no body with the cancelled upload.
\<close>

definition sample_upload :: "string \<Rightarrow> pydict" where
  "sample_upload st =
     [(''id'', JStr ''upload_1''), (''object'', JStr ''upload''), (''bytes'', JInt 0),
      (''created_at'', JInt 1700000000), (''filename'', JStr ''upload.bin''),
      (''purpose'', JStr ''assistants''), (''status'', JStr st), (''expires_at'', JInt 1700003600)]"

definition sample_post :: "(nat list) transport" where
  "sample_post req sizes =
     (case req_body req of
        FormData fd \<Rightarrow>
          (Inr (JObj [(''id'', JStr (''part_'' @ nat_digits (Suc (length sizes)))),
                      (''object'', JStr ''upload.part''), (''created_at'', JInt 1700000001),
                      (''upload_id'', JStr ''upload_1'')]),
           sizes @ map (\<lambda>kv. case read_attr (snd kv) of
                                   Some s \<Rightarrow> pylen (content s) | None \<Rightarrow> 0) fd)
      | JsonBody j \<Rightarrow>
          (if req_path req = ''/v1/uploads'' then (Inr (JObj (sample_upload ''pending'')), sizes)
           else (Inr (JObj (sample_upload ''completed'' @
                   [(''file'', JObj [(''id'', JStr ''file_1''), (''object'', JStr ''file''),
                                     (''bytes'', JInt (int (sum_list sizes))),
                                     (''created_at'', JInt 1700000002),
                                     (''filename'', JStr ''upload.bin''),
                                     (''purpose'', JStr ''assistants'')])])),
                 sizes))
      | NoBody \<Rightarrow> (Inr (JObj (sample_upload ''cancelled'')), sizes))"

definition sample_client :: "(nat list) client" where
  "sample_client = \<lparr> server = [], calls = [] \<rparr>"

text \<open>A transport that answers every request with an upload that carries no file.\<close>

definition sample_post_no_file :: "unit transport" where
  "sample_post_no_file req u = (Inr (JObj (sample_upload ''completed'')), u)"

text \<open>
  The read end of an unbuffered pipe or socket (the \<open>stdout\<close> of
  \<open>subprocess.Popen(..., bufsize=0)\<close>, or \<open>socket.makefile('rb', buffering=0)\<close>) that
  delivers the bytes \<open>b\<close>: it cannot seek, \<open>os.fstat\<close> gives it the size 0, its
  \<open>name\<close> is not a string, and its coming reads are cut to the sizes \<open>ks\<close>.
\<close>

definition sample_pipe :: "byte list \<Rightarrow> nat list \<Rightarrow> py_object" where
  "sample_pipe b ks =
     \<lparr> read_attr = Some \<lparr> content = PyBytes b, pos = 0, seekable = False, short_reads = ks \<rparr>,
       fileno_attr = Some (FilenoInt 0),
       name_attr = None \<rparr>"

definition default_part_size :: int where
  "default_part_size = 64 * 1024 * 1024"

subsection \<open>Chunking, and reading the log\<close>

text \<open>The pieces of \<open>n\<close> items a list falls into, the last one possibly shorter.\<close>

fun chunks_of :: "nat \<Rightarrow> 'a list \<Rightarrow> 'a list list" where
  "chunks_of n xs = (if n = 0 \<or> xs = [] then [] else take n xs # chunks_of n (drop n xs))"

declare chunks_of.simps [simp del]

fun chunk_sizes :: "nat \<Rightarrow> nat \<Rightarrow> nat list" where
  "chunk_sizes n m = (if n = 0 \<or> m = 0 then [] else min n m # chunk_sizes n (m - n))"

declare chunk_sizes.simps [simp del]

text \<open>The id a response carries: what \<open>from_dict\<close> reads with \<open>d["id"]\<close>.\<close>

definition response_id :: "error + json \<Rightarrow> json" where
  "response_id r = (case r of Inr (JObj d) \<Rightarrow> dict_get d ''id'' | _ \<Rightarrow> JNull)"

text \<open>
  The request that adds a chunk to the upload whose id prints as \<open>uid\<close>, and the request
  that completes that upload.
\<close>

definition part_request :: "string \<Rightarrow> byte list \<Rightarrow> request" where
  "part_request uid chunk =
     \<lparr> req_path = ''/v1/uploads/'' @ uid @ ''/parts'',
       req_body = FormData [(''data'', BytesIO chunk)] \<rparr>"

definition complete_request :: "string \<Rightarrow> json list \<Rightarrow> string option \<Rightarrow> request" where
  "complete_request uid part_ids md5 =
     \<lparr> req_path = ''/v1/uploads/'' @ uid @ ''/complete'',
       req_body = JsonBody (JObj ([(''part_ids'', JArr part_ids)]
                     @ (case md5 of None \<Rightarrow> [] | Some m \<Rightarrow> [(''md5'', JStr m)]))) \<rparr>"

text \<open>The byte strings a request carries as form data, and those of a whole log.\<close>

definition request_chunks :: "request \<Rightarrow> byte list list" where
  "request_chunks req =
     (case req_body req of
        FormData fd \<Rightarrow>
          concat (map (\<lambda>kv. case read_attr (snd kv) of
                               Some s \<Rightarrow> (case content s of PyBytes b \<Rightarrow> [b] | PyStr t \<Rightarrow> [])
                             | None \<Rightarrow> []) fd)
      | _ \<Rightarrow> [])"

definition sent_chunks :: "(request \<times> (error + json)) list \<Rightarrow> byte list list" where
  "sent_chunks log = concat (map (\<lambda>entry. request_chunks (fst entry)) log)"

definition new_calls :: "'t client \<Rightarrow> 't client \<Rightarrow> (request \<times> (error + json)) list" where
  "new_calls c c' = drop (length (calls c)) (calls c')"

text \<open>
  A byte source: a path, in-memory bytes, or an object whose \<open>read\<close> yields bytes.
  \<open>source_bytes\<close> is what such a source holds when it stands at its start.
\<close>

definition byte_source :: "file_like \<Rightarrow> bool" where
  "byte_source file =
     (case file of
        FileObj ob \<Rightarrow>
          (case read_attr ob of
             Some s \<Rightarrow> (case content s of PyBytes b \<Rightarrow> True | PyStr t \<Rightarrow> False)
           | None \<Rightarrow> False)
      | _ \<Rightarrow> True)"

definition source_bytes :: "filesystem \<Rightarrow> file_like \<Rightarrow> byte list option" where
  "source_bytes fs file =
     (case file of
        PathLike p \<Rightarrow> fs p
      | BytesLike b \<Rightarrow> Some b
      | FileObj ob \<Rightarrow>
          (case read_attr ob of
             Some s \<Rightarrow>
               (case content s of
                  PyBytes b \<Rightarrow> (if pos s = 0 then Some b else None)
                | PyStr t \<Rightarrow> None)
           | None \<Rightarrow> None))"

text \<open>
  A source whose reads are full: a path (opened as a buffered file), in-memory bytes
  (wrapped in \<open>io.BytesIO\<close>), or an object with no short reads ahead.
\<close>

definition full_reads :: "file_like \<Rightarrow> bool" where
  "full_reads file =
     (case file of
        FileObj ob \<Rightarrow> (case read_attr ob of Some s \<Rightarrow> short_reads s = [] | None \<Rightarrow> True)
      | _ \<Rightarrow> True)"

text \<open>
  The chunks that the loop of \<open>multipart_upload\<close> reads from a stream: the results of
  \<open>read(part_size)\<close>, one after the other, up to the first empty one.
\<close>

function stream_chunks :: "int \<Rightarrow> stream \<Rightarrow> pydata list" where
  "stream_chunks n s =
     (if \<not> pydata_truthy (fst (stream_read n s)) then []
      else fst (stream_read n s) # stream_chunks n (snd (stream_read n s)))"
  by pat_completeness auto
termination
  by (relation "measure (\<lambda>(n, s). pylen (content s) - pos s)")
     (auto simp: stream_read_decreases)

declare stream_chunks.simps [simp del]

fun pydata_bytes :: "pydata \<Rightarrow> byte list" where
  "pydata_bytes (PyBytes b) = b"
| "pydata_bytes (PyStr t) = []"

subsection \<open>Lemmas\<close>

lemma chunks_of_Nil: "chunks_of n [] = []"
  by (simp add: chunks_of.simps)

lemma chunks_of_step:
  "0 < n \<Longrightarrow> xs \<noteq> [] \<Longrightarrow> chunks_of n xs = take n xs # chunks_of n (drop n xs)"
  by (subst chunks_of.simps) simp

lemma chunks_of_le: "ch \<in> set (chunks_of n xs) \<Longrightarrow> length ch \<le> n"
proof (induction n xs rule: chunks_of.induct)
  case (1 n xs)
  show ?case
  proof (cases "n = 0 \<or> xs = []")
    case True
    with "1.prems" show ?thesis by (simp add: chunks_of.simps)
  next
    case False
    with "1.prems" have "ch = take n xs \<or> ch \<in> set (chunks_of n (drop n xs))"
      by (simp add: chunks_of_step)
    with False "1.IH" show ?thesis by auto
  qed
qed

lemma chunks_of_butlast: "ch \<in> set (butlast (chunks_of n xs)) \<Longrightarrow> length ch = n"
proof (induction n xs rule: chunks_of.induct)
  case (1 n xs)
  show ?case
  proof (cases "n = 0 \<or> xs = []")
    case True
    with "1.prems" show ?thesis by (simp add: chunks_of.simps)
  next
    case False
    then have step: "chunks_of n xs = take n xs # chunks_of n (drop n xs)"
      by (simp add: chunks_of_step)
    show ?thesis
    proof (cases "chunks_of n (drop n xs) = []")
      case True
      with step "1.prems" show ?thesis by simp
    next
      case nonempty: False
      then have "drop n xs \<noteq> []" by (auto simp: chunks_of_Nil)
      then have full: "length (take n xs) = n" by simp
      from step nonempty "1.prems"
      have "ch = take n xs \<or> ch \<in> set (butlast (chunks_of n (drop n xs)))" by simp
      with full False "1.IH" show ?thesis by auto
    qed
  qed
qed

lemma concat_chunks_of: "0 < n \<Longrightarrow> concat (chunks_of n xs) = xs"
proof (induction n xs rule: chunks_of.induct)
  case (1 n xs)
  show ?case
  proof (cases "xs = []")
    case True
    then show ?thesis by (simp add: chunks_of_Nil)
  next
    case False
    with "1.prems" "1.IH" show ?thesis by (simp add: chunks_of_step)
  qed
qed

lemma map_length_chunks_of: "map length (chunks_of n xs) = chunk_sizes n (length xs)"
proof (induction n xs rule: chunks_of.induct)
  case (1 n xs)
  show ?case
  proof (cases "n = 0 \<or> xs = []")
    case True
    then show ?thesis by (auto simp: chunks_of.simps chunk_sizes.simps)
  next
    case False
    then have "chunk_sizes n (length xs) = min n (length xs) # chunk_sizes n (length xs - n)"
      by (subst chunk_sizes.simps) simp
    with False "1.IH" show ?thesis by (simp add: chunks_of_step min.commute)
  qed
qed

lemma set_butlast_take: "set (butlast (take k xs)) \<subseteq> set (butlast xs)"
proof (cases "k < length xs")
  case True
  then have "butlast (take k xs) = take (k - 1) xs" by (simp add: butlast_take)
  moreover have "butlast xs = take (length xs - 1) xs" by (rule butlast_conv_take)
  moreover from True have "k - 1 \<le> length xs - 1" by simp
  ultimately show ?thesis by (simp add: set_take_subset_set_take)
next
  case False
  then show ?thesis by simp
qed


lemma sent_chunks_append: "sent_chunks (xs @ ys) = sent_chunks xs @ sent_chunks ys"
  by (simp add: sent_chunks_def)

lemma request_chunks_part: "request_chunks (part_request uid ch) = [ch]"
  by (simp add: request_chunks_def part_request_def BytesIO_def)

lemma request_chunks_complete: "request_chunks (complete_request uid ids md5) = []"
  by (simp add: request_chunks_def complete_request_def)

lemma sent_chunks_parts:
  "sent_chunks (zip (map (part_request uid) chs) resps) = take (length resps) chs"
proof (induction chs arbitrary: resps)
  case Nil
  then show ?case by (simp add: sent_chunks_def)
next
  case (Cons ch chs)
  then show ?case
    by (cases resps) (simp_all add: sent_chunks_def request_chunks_part)
qed

lemma UploadPart_from_dict_id:
  "UploadPart_from_dict rt j = Inr part \<Longrightarrow> p_id part = response_id (Inr j)"
  by (cases j)
     (auto simp: UploadPart_from_dict_def ebind_def dict_item_def dict_get_def
        dict_get_default_def response_id_def split: sum.splits option.splits)

lemma Upload_from_dict_id:
  "Upload_from_dict rt j = Inr u \<Longrightarrow> u_id u = response_id (Inr j)"
  by (cases j)
     (auto simp: Upload_from_dict_def ebind_def dict_item_def dict_get_def Let_def
        dict_get_default_def response_id_def split: sum.splits option.splits if_splits)

lemma ebind_Inr_id:
  assumes "ebind r g = Inr y" and "\<And>j. g j = Inr y \<Longrightarrow> h y = response_id (Inr j)"
  shows "h y = response_id r"
  using assms by (cases r) (auto simp: ebind_def)

lemma add_upload_part_bytes:
  assumes "py_str rt upload_id = Inr uid"
    and "add_upload_part rt fs post upload_id (BytesLike ch) c = (r, c')"
  shows "\<exists>resp. calls c' = calls c @ [(part_request uid ch, resp)] \<and>
                (\<forall>part. r = Inr part \<longrightarrow> p_id part = response_id resp)"
proof -
  let ?req = "part_request uid ch"
  from assms have r: "r = ebind (fst (http_post post ?req c)) (UploadPart_from_dict rt)"
    and c': "c' = snd (http_post post ?req c)"
    by (simp_all add: add_upload_part_def coerce_file_def part_request_def Let_def)
  have "calls c' = calls c @ [(?req, fst (http_post post ?req c))]"
    by (simp add: c' http_post_def Let_def)
  moreover have "\<forall>part. r = Inr part \<longrightarrow> p_id part = response_id (fst (http_post post ?req c))"
    using r ebind_Inr_id [where g = "UploadPart_from_dict rt" and h = p_id] UploadPart_from_dict_id
    by metis
  ultimately show ?thesis by blast
qed

lemma add_upload_part_no_request:
  assumes "py_str rt upload_id = Inl e"
    and "add_upload_part rt fs post upload_id data c = (r, c')"
  shows "c' = c \<and> (\<exists>e'. r = Inl e')"
  using assms by (auto simp: add_upload_part_def split: sum.splits)

lemma create_upload_calls:
  assumes "create_upload rt post bytes fname mt pu ea c = (ru, c1)"
  shows "\<exists>creq r0. req_path creq = ''/v1/uploads'' \<and> request_chunks creq = [] \<and>
            calls c1 = calls c @ [(creq, r0)] \<and> (\<forall>u. ru = Inr u \<longrightarrow> u_id u = response_id r0)"
proof -
  define creq where "creq = \<lparr> req_path = ''/v1/uploads'',
      req_body = JsonBody (JObj ([(''purpose'', JStr pu), (''filename'', JStr fname),
                  (''bytes'', JInt bytes), (''mime_type'', JStr mt)]
                 @ (if truthy ea then [(''expires_after'', flatten_expires_after ea)] else []))) \<rparr>"
  from assms have ru: "ru = ebind (fst (http_post post creq c)) (Upload_from_dict rt)"
    and c1: "c1 = snd (http_post post creq c)"
    by (simp_all add: create_upload_def creq_def Let_def)
  have "calls c1 = calls c @ [(creq, fst (http_post post creq c))]"
    by (simp add: c1 http_post_def Let_def)
  moreover have "\<forall>u. ru = Inr u \<longrightarrow> u_id u = response_id (fst (http_post post creq c))"
    using ru ebind_Inr_id [where g = "Upload_from_dict rt" and h = u_id] Upload_from_dict_id
    by metis
  moreover have "req_path creq = ''/v1/uploads''" "request_chunks creq = []"
    by (simp_all add: creq_def request_chunks_def)
  ultimately show ?thesis by blast
qed

lemma complete_upload_calls:
  assumes "py_str rt upload_id = Inr uid"
    and "complete_upload rt post upload_id ids md5 c = (ru, c3)"
  shows "\<exists>r1. calls c3 = calls c @ [(complete_request uid ids md5, r1)]"
  using assms
  by (auto simp: complete_upload_def complete_request_def http_post_def Let_def)

lemma complete_upload_no_request:
  assumes "py_str rt upload_id = Inl e"
    and "complete_upload rt post upload_id ids md5 c = (ru, c3)"
  shows "c3 = c \<and> ru = Inl e"
  using assms by (auto simp: complete_upload_def Let_def)

lemma stream_read_content: "content (snd (stream_read n s)) = content s"
  by (simp add: stream_read_def Let_def split: list.split)

lemma stream_read_PyBytes:
  assumes "content s = PyBytes bs"
  shows "\<exists>ch. fst (stream_read n s) = PyBytes ch"
  using assms by (simp add: stream_read_def Let_def split: list.split)

lemma stream_read_le: "0 \<le> n \<Longrightarrow> pylen (fst (stream_read n s)) \<le> nat n"
  by (cases "content s"; cases "short_reads s") (simp_all add: stream_read_def Let_def)

lemma stream_read_full:
  assumes "content s = PyBytes b" and "0 < n" and "short_reads s = []"
  shows "stream_read n s =
           (PyBytes (take (nat n) (drop (pos s) b)),
            s\<lparr>pos := pos s + length (take (nat n) (drop (pos s) b))\<rparr>)"
  using assms by (simp add: stream_read_def Let_def)

lemma drop_after_chunk: "drop (p + length (take k (drop p b))) b = drop k (drop p b)"
proof (cases "k \<le> length b - p")
  case True
  then show ?thesis by (simp add: min_def add.commute)
next
  case False
  then show ?thesis by (simp add: min_def)
qed

lemma pydata_bytes_le: "length (pydata_bytes x) \<le> pylen x"
  by (cases x) simp_all

lemma stream_chunks_le:
  assumes "0 < n" and "ch \<in> set (stream_chunks n s)"
  shows "pylen ch \<le> nat n"
  using assms
proof (induction n s rule: stream_chunks.induct)
  case (1 n s)
  show ?case
  proof (cases "pydata_truthy (fst (stream_read n s))")
    case False
    then have "stream_chunks n s = []" by (subst stream_chunks.simps) simp
    with "1.prems" show ?thesis by simp
  next
    case True
    then have "stream_chunks n s =
                 fst (stream_read n s) # stream_chunks n (snd (stream_read n s))"
      by (subst stream_chunks.simps) simp
    with "1.prems" have "ch = fst (stream_read n s) \<or>
                         ch \<in> set (stream_chunks n (snd (stream_read n s)))" by simp
    then show ?thesis
    proof
      assume "ch = fst (stream_read n s)"
      then show ?thesis using stream_read_le [of n s] "1.prems"(1) by simp
    next
      assume "ch \<in> set (stream_chunks n (snd (stream_read n s)))"
      then show ?thesis using "1.IH" True "1.prems"(1) by simp
    qed
  qed
qed

lemma stream_chunks_full:
  assumes "content s = PyBytes bs" and "short_reads s = []" and "0 < n"
  shows "map pydata_bytes (stream_chunks n s) = chunks_of (nat n) (drop (pos s) bs)"
  using assms
proof (induction n s rule: stream_chunks.induct)
  case (1 n s)
  let ?rest = "drop (pos s) bs"
  let ?ch = "take (nat n) ?rest"
  let ?s1 = "s\<lparr>pos := pos s + length ?ch\<rparr>"
  from "1.prems" have rd: "stream_read n s = (PyBytes ?ch, ?s1)"
    by (simp add: stream_read_full)
  show ?case
  proof (cases "?rest = []")
    case True
    then have "stream_chunks n s = []" by (subst stream_chunks.simps) (simp add: rd)
    with True show ?thesis by (simp add: chunks_of_Nil)
  next
    case False
    with "1.prems" have ne: "?ch \<noteq> []" by simp
    from False "1.prems" have step:
      "chunks_of (nat n) ?rest = ?ch # chunks_of (nat n) (drop (nat n) ?rest)"
      by (simp add: chunks_of_step)
    have sc: "stream_chunks n s = PyBytes ?ch # stream_chunks n ?s1"
      using ne by (subst stream_chunks.simps) (simp add: rd)
    have t: "pydata_truthy (fst (stream_read n s))" using ne by (simp add: rd)
    have "map pydata_bytes (stream_chunks n (snd (stream_read n s))) =
            chunks_of (nat n) (drop (pos (snd (stream_read n s))) bs)"
      using "1.IH" t "1.prems" by (simp add: rd)
    then have "map pydata_bytes (stream_chunks n ?s1) =
            chunks_of (nat n) (drop (pos s + length ?ch) bs)"
      by (simp add: rd)
    moreover have "drop (pos s + length ?ch) bs = drop (nat n) ?rest"
      by (rule drop_after_chunk)
    ultimately have "map pydata_bytes (stream_chunks n ?s1) =
            chunks_of (nat n) (drop (nat n) ?rest)"
      by (simp only:)
    with sc step show ?thesis by simp
  qed
qed

lemma add_parts_trace:
  assumes "py_str rt upload_id = Inr uid" and "content s = PyBytes bs"
    and "add_parts rt fs post upload_id n s ids c = (r, s', c')"
  shows "\<exists>resps. length resps \<le> length (stream_chunks n s) \<and>
           calls c' = calls c @
             zip (map (part_request uid) (map pydata_bytes (stream_chunks n s))) resps \<and>
           (\<forall>ids'. r = Inr ids' \<longrightarrow>
               length resps = length (stream_chunks n s) \<and>
               ids' = ids @ map response_id resps)"
  using assms
proof (induction rt fs post upload_id n s ids c arbitrary: r s' c' rule: add_parts.induct)
  case (1 rt fs post upload_id n s ids c)
  let ?s1 = "snd (stream_read n s)"
  obtain ch where ch: "fst (stream_read n s) = PyBytes ch"
    using stream_read_PyBytes [OF "1.prems"(2)] by blast
  show ?case
  proof (cases "ch = []")
    case True
    then have sc: "stream_chunks n s = []"
      using ch by (subst stream_chunks.simps) simp
    have "add_parts rt fs post upload_id n s ids c = (Inr ids, ?s1, c)"
      using True ch by (subst add_parts.simps) (simp add: Let_def)
    with "1.prems" have "r = Inr ids" "c' = c" by simp_all
    with sc show ?thesis by simp
  next
    case False
    then have sc: "stream_chunks n s = PyBytes ch # stream_chunks n ?s1"
      using ch by (subst stream_chunks.simps) simp
    obtain r1 c1 where ap: "add_upload_part rt fs post upload_id (BytesLike ch) c = (r1, c1)"
      by (cases "add_upload_part rt fs post upload_id (BytesLike ch) c") blast
    obtain resp where resp: "calls c1 = calls c @ [(part_request uid ch, resp)]"
      and pid: "\<forall>part. r1 = Inr part \<longrightarrow> p_id part = response_id resp"
      using add_upload_part_bytes [OF "1.prems"(1) ap] by blast
    show ?thesis
    proof (cases r1)
      case (Inl e)
      have "add_parts rt fs post upload_id n s ids c = (Inl e, ?s1, c1)"
        using False ap Inl ch by (subst add_parts.simps) (simp add: Let_def)
      with "1.prems" have "r = Inl e" "c' = c1" by simp_all
      then have "length [resp] \<le> length (stream_chunks n s) \<and>
           calls c' = calls c @
             zip (map (part_request uid) (map pydata_bytes (stream_chunks n s))) [resp] \<and>
           (\<forall>ids'. r = Inr ids' \<longrightarrow>
               length [resp] = length (stream_chunks n s) \<and>
               ids' = ids @ map response_id [resp])"
        by (simp add: sc resp)
      then show ?thesis by blast
    next
      case (Inr part)
      have eq: "add_parts rt fs post upload_id n s ids c =
                add_parts rt fs post upload_id n ?s1 (ids @ [p_id part]) c1"
        using False ap Inr ch by (subst add_parts.simps) (simp add: Let_def)
      have "\<exists>resps. length resps \<le> length (stream_chunks n ?s1) \<and>
           calls c' = calls c1 @
             zip (map (part_request uid) (map pydata_bytes (stream_chunks n ?s1))) resps \<and>
           (\<forall>ids'. r = Inr ids' \<longrightarrow>
               length resps = length (stream_chunks n ?s1) \<and>
               ids' = (ids @ [p_id part]) @ map response_id resps)"
      proof (rule "1.IH" [where x = "PyBytes ch" and xa = ?s1 and xb = r1 and y = c1
                           and b = part])
        show "PyBytes ch = fst (stream_read n s)" by (simp add: ch)
        show "?s1 = snd (stream_read n s)" by simp
        show "\<not> \<not> pydata_truthy (PyBytes ch)" using False by simp
        show "(r1, c1) = add_upload_part rt fs post upload_id (pydata_file_like (PyBytes ch)) c"
          by (simp add: ap)
        show "r1 = Inr part" by (rule Inr)
        show "py_str rt upload_id = Inr uid" by (rule "1.prems"(1))
        show "content ?s1 = PyBytes bs" using "1.prems"(2) by (simp add: stream_read_content)
        show "add_parts rt fs post upload_id n ?s1 (ids @ [p_id part]) c1 = (r, s', c')"
          using "1.prems" eq by simp
      qed
      then obtain resps where
        len: "length resps \<le> length (stream_chunks n ?s1)"
        and cl: "calls c' = calls c1 @
             zip (map (part_request uid) (map pydata_bytes (stream_chunks n ?s1))) resps"
        and ok: "\<forall>ids'. r = Inr ids' \<longrightarrow>
               length resps = length (stream_chunks n ?s1) \<and>
               ids' = (ids @ [p_id part]) @ map response_id resps"
        by blast
      from pid Inr have "p_id part = response_id resp" by simp
      with len cl ok have "length (resp # resps) \<le> length (stream_chunks n s) \<and>
           calls c' = calls c @
             zip (map (part_request uid) (map pydata_bytes (stream_chunks n s))) (resp # resps) \<and>
           (\<forall>ids'. r = Inr ids' \<longrightarrow>
               length (resp # resps) = length (stream_chunks n s) \<and>
               ids' = ids @ map response_id (resp # resps))"
        by (simp add: sc resp)
      then show ?thesis by blast
    qed
  qed
qed

lemma add_parts_no_request:
  assumes "py_str rt upload_id = Inl e"
    and "add_parts rt fs post upload_id n s ids c = (r, s', c')"
  shows "c' = c"
proof (cases "pydata_truthy (fst (stream_read n s))")
  case False
  then have "add_parts rt fs post upload_id n s ids c = (Inr ids, snd (stream_read n s), c)"
    by (subst add_parts.simps) (simp add: Let_def)
  with assms(2) show ?thesis by simp
next
  case True
  obtain r1 c1 where ap:
    "add_upload_part rt fs post upload_id (pydata_file_like (fst (stream_read n s))) c = (r1, c1)"
    by (cases "add_upload_part rt fs post upload_id (pydata_file_like (fst (stream_read n s))) c")
       blast
  from add_upload_part_no_request [OF assms(1) ap] obtain e' where
    c1: "c1 = c" and r1: "r1 = Inl e'" by blast
  have "add_parts rt fs post upload_id n s ids c = (Inl e', snd (stream_read n s), c)"
    using True ap c1 r1 by (subst add_parts.simps) (simp add: Let_def)
  with assms(2) show ?thesis by simp
qed

lemma new_calls_append: "calls c' = calls c @ xs \<Longrightarrow> new_calls c c' = xs"
  by (simp add: new_calls_def)

lemma new_calls_same: "new_calls c c = []"
  by (simp add: new_calls_def)

lemma coerce_after_infer:
  assumes "byte_source file" and "infer_size fs file = (Inr sz, file1)"
    and "coerce_file fs file1 = Inr fobj"
  shows "\<exists>s bs. read_attr fobj = Some s \<and> content s = PyBytes bs \<and>
           (full_reads file \<longrightarrow> short_reads s = []) \<and>
           (\<forall>b. source_bytes fs file = Some b \<longrightarrow> bs = b \<and> pos s = 0)"
proof (cases "file")
  case (PathLike p)
  with assms show ?thesis
    by (auto simp: infer_size_def coerce_file_def open_rb_def source_bytes_def
          split: option.splits)
next
  case (BytesLike b)
  with assms show ?thesis
    by (auto simp: infer_size_def coerce_file_def BytesIO_def source_bytes_def)
next
  case (FileObj ob)
  with assms(1) obtain s bs where s: "read_attr ob = Some s" "content s = PyBytes bs"
    by (auto simp: byte_source_def split: option.splits pydata.splits)
  have sb: "\<forall>b. source_bytes fs file = Some b \<longrightarrow> bs = b \<and> pos s = 0"
    using FileObj s by (simp add: source_bytes_def)
  have fr: "full_reads file \<longrightarrow> short_reads s = []"
    using FileObj s by (simp add: full_reads_def)
  have rd: "stream_read (- 1) s = (PyBytes (drop (pos s) bs), s\<lparr>pos := pos s + length (drop (pos s) bs)\<rparr>)"
    using s by (simp add: stream_read_def Let_def)
  from assms(2,3) FileObj s
  have "read_attr fobj = Some s \<or> read_attr fobj = Some (s\<lparr>pos := 0\<rparr>)"
    by (auto simp: infer_size_def coerce_file_def rd stream_seek0_def
          split: option.splits fileno_result.splits if_splits)
  then show ?thesis
  proof
    assume "read_attr fobj = Some s"
    with s sb fr show ?thesis by simp
  next
    assume "read_attr fobj = Some (s\<lparr>pos := 0\<rparr>)"
    with s sb fr show ?thesis by simp
  qed
qed

lemma multipart_upload_run:
  assumes inf: "infer_size fs file = (Inr sz, file1)"
    and co: "coerce_file fs file1 = Inr fobj"
    and rd: "read_attr fobj = Some s"
    and bs: "content s = PyBytes bs"
    and run: "multipart_upload rt fs post file purpose mime filename part_size ea md5 c = (r, c')"
  shows "\<exists>creq r0 uid resps.
           req_path creq = ''/v1/uploads'' \<and> request_chunks creq = [] \<and>
           length resps \<le> length (stream_chunks part_size s) \<and>
           ((calls c' = calls c @ (creq, r0) #
                zip (map (part_request uid)
                       (map pydata_bytes (stream_chunks part_size s))) resps \<and>
             (\<forall>f. r \<noteq> Inr f))
            \<or> (py_str rt (response_id r0) = Inr uid \<and>
                length resps = length (stream_chunks part_size s) \<and>
                (\<exists>r1. calls c' = calls c @ (creq, r0) #
                   zip (map (part_request uid)
                          (map pydata_bytes (stream_chunks part_size s))) resps @
                   [(complete_request uid (map response_id resps) md5, r1)])))"
proof -
  let ?chs = "map pydata_bytes (stream_chunks part_size s)"
  let ?n = "length (stream_chunks part_size s)"
  define fname where "fname =
     (case filename of Some n \<Rightarrow> n
      | None \<Rightarrow> (case name_attr fobj of Some n \<Rightarrow> n | None \<Rightarrow> ''upload.bin''))"
  obtain ru c1 where cu: "create_upload rt post (int sz) fname mime purpose ea c = (ru, c1)"
    by (cases "create_upload rt post (int sz) fname mime purpose ea c") blast
  obtain creq r0 where creq: "req_path creq = ''/v1/uploads''" "request_chunks creq = []"
    and c1: "calls c1 = calls c @ [(creq, r0)]"
    and uid: "\<forall>u. ru = Inr u \<longrightarrow> u_id u = response_id r0"
    using create_upload_calls [OF cu] by blast
  have only_create: ?thesis if "c' = c1" and "\<forall>f. r \<noteq> Inr f"
  proof -
    from that c1 creq have "req_path creq = ''/v1/uploads'' \<and> request_chunks creq = [] \<and>
           length ([] :: (error + json) list) \<le> ?n \<and>
           ((calls c' = calls c @ (creq, r0) #
                zip (map (part_request []) ?chs) [] \<and> (\<forall>f. r \<noteq> Inr f))
            \<or> (py_str rt (response_id r0) = Inr [] \<and>
                length ([] :: (error + json) list) = ?n \<and>
                (\<exists>r1. calls c' = calls c @ (creq, r0) #
                   zip (map (part_request []) ?chs) [] @
                   [(complete_request [] (map response_id []) md5, r1)])))"
      by simp
    then show ?thesis by blast
  qed
  show ?thesis
  proof (cases ru)
    case (Inl e)
    with run inf co cu have "r = Inl e" "c' = c1"
      by (simp_all add: multipart_upload_def fname_def)
    then show ?thesis using only_create by simp
  next
    case (Inr upload)
    with uid have uid': "u_id upload = response_id r0" by simp
    obtain rp s' c2 where
      ap: "add_parts rt fs post (response_id r0) part_size s [] c1 = (rp, s', c2)"
      by (cases "add_parts rt fs post (response_id r0) part_size s [] c1") blast
    show ?thesis
    proof (cases "py_str rt (response_id r0)")
      case no_uid: (Inl e)
      have c2: "c2 = c1" using add_parts_no_request [OF no_uid ap] .
      show ?thesis
      proof (cases rp)
        case (Inl e')
        with run inf co cu rd ap Inr uid' have "r = Inl e'" "c' = c2"
          by (simp_all add: multipart_upload_def fname_def)
        then show ?thesis using only_create c2 by simp
      next
        case part_ids: (Inr part_ids)
        obtain rf c3 where
          cp: "complete_upload rt post (response_id r0) part_ids md5 c2 = (rf, c3)"
          by (cases "complete_upload rt post (response_id r0) part_ids md5 c2") blast
        from complete_upload_no_request [OF no_uid cp] have c3: "c3 = c2" and rf: "rf = Inl e"
          by simp_all
        from run inf co cu rd ap Inr uid' part_ids cp c3 rf have "r = Inl e" "c' = c2"
          by (simp_all add: multipart_upload_def fname_def)
        then show ?thesis using only_create c2 by simp
      qed
    next
      case has_uid: (Inr u)
      obtain resps where len: "length resps \<le> ?n"
        and c2: "calls c2 = calls c1 @ zip (map (part_request u) ?chs) resps"
        and ids: "\<forall>ids'. rp = Inr ids' \<longrightarrow>
                    length resps = ?n \<and> ids' = [] @ map response_id resps"
        using add_parts_trace [OF has_uid bs ap] by blast
      show ?thesis
      proof (cases rp)
        case (Inl e)
        with run inf co cu rd ap Inr uid' have "r = Inl e" "c' = c2"
          by (simp_all add: multipart_upload_def fname_def)
        with c1 c2 creq len have "req_path creq = ''/v1/uploads'' \<and> request_chunks creq = [] \<and>
             length resps \<le> ?n \<and>
             ((calls c' = calls c @ (creq, r0) #
                  zip (map (part_request u) ?chs) resps \<and> (\<forall>f. r \<noteq> Inr f))
              \<or> (py_str rt (response_id r0) = Inr u \<and> length resps = ?n \<and>
                  (\<exists>r1. calls c' = calls c @ (creq, r0) #
                     zip (map (part_request u) ?chs) resps @
                     [(complete_request u (map response_id resps) md5, r1)])))"
          by simp
        then show ?thesis by blast
      next
        case part_ids: (Inr part_ids)
        with ids have full: "length resps = ?n"
          and pids: "part_ids = map response_id resps" by simp_all
        obtain rf c3 where
          cp: "complete_upload rt post (response_id r0) (map response_id resps) md5 c2 = (rf, c3)"
          by (cases "complete_upload rt post (response_id r0) (map response_id resps) md5 c2")
             blast
        obtain r1 where c3: "calls c3 = calls c2 @
            [(complete_request u (map response_id resps) md5, r1)]"
          using complete_upload_calls [OF has_uid cp] by blast
        from run inf co cu rd ap Inr uid' part_ids pids cp have "c' = c3"
          by (simp add: multipart_upload_def fname_def split: sum.splits option.splits)
        with c1 c2 c3 creq len full has_uid have "req_path creq = ''/v1/uploads'' \<and>
             request_chunks creq = [] \<and> length resps \<le> ?n \<and>
             ((calls c' = calls c @ (creq, r0) #
                  zip (map (part_request u) ?chs) resps \<and> (\<forall>f. r \<noteq> Inr f))
              \<or> (py_str rt (response_id r0) = Inr u \<and> length resps = ?n \<and>
                  (\<exists>r1. calls c' = calls c @ (creq, r0) #
                     zip (map (part_request u) ?chs) resps @
                     [(complete_request u (map response_id resps) md5, r1)])))"
          by simp
        then show ?thesis by blast
      qed
    qed
  qed
qed

lemma multipart_upload_early_failure:
  assumes "multipart_upload rt fs post file purpose mime filename part_size ea md5 c = (r, c')"
    and "fst (infer_size fs file) = Inl e \<or>
         (\<exists>sz. fst (infer_size fs file) = Inr sz) \<and> coerce_file fs (snd (infer_size fs file)) = Inl e"
  shows "r = Inl e \<and> c' = c"
  using assms
  by (cases "infer_size fs file")
     (auto simp: multipart_upload_def split: sum.splits)

lemma sent_chunks_run:
  assumes "req_path creq = ''/v1/uploads''" and "request_chunks creq = []"
  shows "sent_chunks ((creq, r0) # zip (map (part_request uid) chs) resps) =
           take (length resps) chs"
    and "sent_chunks ((creq, r0) # zip (map (part_request uid) chs) resps @
           [(complete_request uid ids md5, r1)]) = take (length resps) chs"
proof -
  have a: "sent_chunks [(creq, r0)] = []"
    using assms by (simp add: sent_chunks_def)
  have b: "sent_chunks [(complete_request uid ids md5, r1)] = []"
    by (simp add: sent_chunks_def request_chunks_complete)
  have "sent_chunks ((creq, r0) # zip (map (part_request uid) chs) resps) =
        sent_chunks ([(creq, r0)] @ zip (map (part_request uid) chs) resps)" by simp
  then show "sent_chunks ((creq, r0) # zip (map (part_request uid) chs) resps) =
           take (length resps) chs"
    by (simp only: sent_chunks_append a sent_chunks_parts append_Nil)
  have "sent_chunks ((creq, r0) # zip (map (part_request uid) chs) resps @
           [(complete_request uid ids md5, r1)]) =
        sent_chunks ([(creq, r0)] @ zip (map (part_request uid) chs) resps @
           [(complete_request uid ids md5, r1)])" by simp
  then show "sent_chunks ((creq, r0) # zip (map (part_request uid) chs) resps @
           [(complete_request uid ids md5, r1)]) = take (length resps) chs"
    by (simp only: sent_chunks_append a b sent_chunks_parts append_Nil append_Nil2)
qed

lemma prefix_chunk_bounds:
  assumes "xs = take k (chunks_of n bs)"
  shows "(\<forall>ch \<in> set xs. length ch \<le> n) \<and> (\<forall>ch \<in> set (butlast xs). length ch = n)"
proof -
  have "\<forall>ch \<in> set xs. length ch \<le> n"
    using assms chunks_of_le by (metis in_set_takeD)
  moreover have "\<forall>ch \<in> set (butlast xs). length ch = n"
    using assms chunks_of_butlast set_butlast_take by (metis subsetD)
  ultimately show ?thesis by blast
qed

lemma sent_chunks_of_run:
  assumes "byte_source file"
    and "multipart_upload rt fs post file purpose mime filename part_size ea md5 c = (r, c')"
  shows "\<exists>k s bs. sent_chunks (new_calls c c') =
                     take k (map pydata_bytes (stream_chunks part_size s)) \<and>
                  content s = PyBytes bs \<and> (full_reads file \<longrightarrow> short_reads s = [])"
proof -
  let ?s0 = "\<lparr> content = PyBytes [], pos = 0, seekable = True, short_reads = [] \<rparr>"
  obtain ri file1 where inf: "infer_size fs file = (ri, file1)"
    by (cases "infer_size fs file") blast
  have early: ?thesis if "c' = c"
  proof -
    from that have "sent_chunks (new_calls c c') =
                      take 0 (map pydata_bytes (stream_chunks part_size ?s0)) \<and>
                    content ?s0 = PyBytes [] \<and> (full_reads file \<longrightarrow> short_reads ?s0 = [])"
      by (simp add: new_calls_same sent_chunks_def)
    then show ?thesis by blast
  qed
  show ?thesis
  proof (cases ri)
    case (Inl e)
    with inf have "c' = c"
      using multipart_upload_early_failure [OF assms(2), of e] by simp
    then show ?thesis by (rule early)
  next
    case (Inr sz)
    show ?thesis
    proof (cases "coerce_file fs file1")
      case (Inl e)
      with inf Inr have "c' = c"
        using multipart_upload_early_failure [OF assms(2), of e] by simp
      then show ?thesis by (rule early)
    next
      case co: (Inr fobj)
      from inf Inr have inf': "infer_size fs file = (Inr sz, file1)" by simp
      obtain s bs where s: "read_attr fobj = Some s" "content s = PyBytes bs"
        and fr: "full_reads file \<longrightarrow> short_reads s = []"
        using coerce_after_infer [OF assms(1) inf' co] by blast
      let ?chs = "map pydata_bytes (stream_chunks part_size s)"
      obtain creq r0 uid resps where creq: "req_path creq = ''/v1/uploads''"
          "request_chunks creq = []"
        and cases: "calls c' = calls c @ (creq, r0) # zip (map (part_request uid) ?chs) resps
            \<or> (\<exists>r1. calls c' = calls c @ (creq, r0) # zip (map (part_request uid) ?chs) resps @
                   [(complete_request uid (map response_id resps) md5, r1)])"
        using multipart_upload_run [OF inf' co s assms(2)] by blast
      from cases have "sent_chunks (new_calls c c') = take (length resps) ?chs"
      proof
        assume a: "calls c' = calls c @ (creq, r0) # zip (map (part_request uid) ?chs) resps"
        show ?thesis
          by (simp only: new_calls_append [OF a] sent_chunks_run(1) [OF creq])
      next
        assume "\<exists>r1. calls c' = calls c @ (creq, r0) # zip (map (part_request uid) ?chs) resps @
                   [(complete_request uid (map response_id resps) md5, r1)]"
        then obtain r1 where a: "calls c' = calls c @ (creq, r0) #
                   zip (map (part_request uid) ?chs) resps @
                   [(complete_request uid (map response_id resps) md5, r1)]" ..
        show ?thesis
          by (simp only: new_calls_append [OF a] sent_chunks_run(2) [OF creq])
      qed
      with s(2) fr show ?thesis by blast
    qed
  qed
qed

lemma chunk_sizes_150:
  "chunk_sizes 67108864 157286400 = [67108864, 67108864, 23068672]"
  by (simp add: chunk_sizes.simps)

lemma scenario_150:
  assumes "part_size = default_part_size" and "length b = 150 * 1024 * 1024"
  shows "map length (chunks_of (nat part_size) b) = [67108864, 67108864, 23068672]"
proof -
  have "nat part_size = 67108864" using assms(1) by (simp add: default_part_size_def)
  moreover have "length b = 157286400" using assms(2) by simp
  ultimately show ?thesis by (simp only: map_length_chunks_of chunk_sizes_150)
qed

lemmas sample_eval =
  multipart_upload_def infer_size_def coerce_file_def BytesIO_def create_upload_def
  http_post_def sample_post_def sample_upload_def Upload_from_dict_def File_from_dict_def
  UploadPart_from_dict_def ebind_def dict_item_def dict_get_def dict_get_default_def
  sample_client_def add_parts.simps add_upload_part_def complete_upload_def stream_read_def
  stream_seek0_def Let_def py_str_def default_part_size_def nat_digits.simps sample_runtime_def
  flatten_expires_after_def is_OSError_def sample_pipe_def

lemma run_small:
  "multipart_upload sample_runtime (\<lambda>p. None) sample_post (BytesLike [1, 2, 3, 4, 5])
      ''assistants'' ''text/plain'' None 2 JNull None sample_client =
   (Inr \<lparr> f_id = JStr ''file_1'', f_object = JStr ''file'', f_bytes = 5,
          f_created_at = 1700000002, f_expires_at = JNull, f_filename = JStr ''upload.bin'',
          f_purpose = JStr ''assistants'', f_status = JNull, f_status_details = JNull,
          f_raw = [(''id'', JStr ''file_1''), (''object'', JStr ''file''), (''bytes'', JInt 5),
                   (''created_at'', JInt 1700000002), (''filename'', JStr ''upload.bin''),
                   (''purpose'', JStr ''assistants'')] \<rparr>,
    \<lparr> server = [2, 2, 1],
      calls =
       [(\<lparr> req_path = ''/v1/uploads'',
            req_body = JsonBody (JObj [(''purpose'', JStr ''assistants''),
                         (''filename'', JStr ''upload.bin''), (''bytes'', JInt 5),
                         (''mime_type'', JStr ''text/plain'')]) \<rparr>,
         Inr (JObj (sample_upload ''pending''))),
        (part_request ''upload_1'' [1, 2],
         Inr (JObj [(''id'', JStr ''part_1''), (''object'', JStr ''upload.part''),
                    (''created_at'', JInt 1700000001), (''upload_id'', JStr ''upload_1'')])),
        (part_request ''upload_1'' [3, 4],
         Inr (JObj [(''id'', JStr ''part_2''), (''object'', JStr ''upload.part''),
                    (''created_at'', JInt 1700000001), (''upload_id'', JStr ''upload_1'')])),
        (part_request ''upload_1'' [5],
         Inr (JObj [(''id'', JStr ''part_3''), (''object'', JStr ''upload.part''),
                    (''created_at'', JInt 1700000001), (''upload_id'', JStr ''upload_1'')])),
        (complete_request ''upload_1''
           [JStr ''part_1'', JStr ''part_2'', JStr ''part_3''] None,
         Inr (JObj (sample_upload ''completed'' @
                   [(''file'', JObj [(''id'', JStr ''file_1''), (''object'', JStr ''file''),
                                     (''bytes'', JInt 5),
                                     (''created_at'', JInt 1700000002),
                                     (''filename'', JStr ''upload.bin''),
                                     (''purpose'', JStr ''assistants'')])])))] \<rparr>)"
  by (simp add: sample_eval part_request_def complete_request_def)

lemma run_150:
  "multipart_upload sample_runtime (\<lambda>p. None) sample_post (BytesLike (replicate 157286400 0))
      ''assistants'' ''application/octet-stream'' None default_part_size JNull None sample_client =
   (Inr \<lparr> f_id = JStr ''file_1'', f_object = JStr ''file'', f_bytes = 157286400,
          f_created_at = 1700000002, f_expires_at = JNull, f_filename = JStr ''upload.bin'',
          f_purpose = JStr ''assistants'', f_status = JNull, f_status_details = JNull,
          f_raw = [(''id'', JStr ''file_1''), (''object'', JStr ''file''),
                   (''bytes'', JInt 157286400),
                   (''created_at'', JInt 1700000002), (''filename'', JStr ''upload.bin''),
                   (''purpose'', JStr ''assistants'')] \<rparr>,
    \<lparr> server = [67108864, 67108864, 23068672],
      calls =
       [(\<lparr> req_path = ''/v1/uploads'',
            req_body = JsonBody (JObj [(''purpose'', JStr ''assistants''),
                         (''filename'', JStr ''upload.bin''), (''bytes'', JInt 157286400),
                         (''mime_type'', JStr ''application/octet-stream'')]) \<rparr>,
         Inr (JObj (sample_upload ''pending''))),
        (part_request ''upload_1'' (replicate 67108864 0),
         Inr (JObj [(''id'', JStr ''part_1''), (''object'', JStr ''upload.part''),
                    (''created_at'', JInt 1700000001), (''upload_id'', JStr ''upload_1'')])),
        (part_request ''upload_1'' (replicate 67108864 0),
         Inr (JObj [(''id'', JStr ''part_2''), (''object'', JStr ''upload.part''),
                    (''created_at'', JInt 1700000001), (''upload_id'', JStr ''upload_1'')])),
        (part_request ''upload_1'' (replicate 23068672 0),
         Inr (JObj [(''id'', JStr ''part_3''), (''object'', JStr ''upload.part''),
                    (''created_at'', JInt 1700000001), (''upload_id'', JStr ''upload_1'')])),
        (complete_request ''upload_1''
           [JStr ''part_1'', JStr ''part_2'', JStr ''part_3''] None,
         Inr (JObj (sample_upload ''completed'' @
                   [(''file'', JObj [(''id'', JStr ''file_1''), (''object'', JStr ''file''),
                                     (''bytes'', JInt 157286400),
                                     (''created_at'', JInt 1700000002),
                                     (''filename'', JStr ''upload.bin''),
                                     (''purpose'', JStr ''assistants'')])])))] \<rparr>)"
  by (simp add: sample_eval part_request_def complete_request_def)

lemma multipart_upload_returns_file:
  assumes "multipart_upload rt fs post file purpose mime filename part_size ea md5 c = (Inr f, c')"
  shows "\<exists>uid ids c2 final_upload.
           complete_upload rt post uid ids md5 c2 = (Inr final_upload, c') \<and>
           u_file final_upload = Some f"
  using assms
  by (auto simp: multipart_upload_def Let_def split: prod.splits sum.splits option.splits)

lemma infer_size_at_start:
  assumes "source_bytes fs file = Some b"
    and "\<forall>ob. file = FileObj ob \<longrightarrow>
           (case fileno_attr ob of
              Some (FilenoInt st_size) \<Rightarrow> st_size = length b
            | Some (FilenoRaises e) \<Rightarrow>
                is_OSError e \<and> (\<forall>s. read_attr ob = Some s \<longrightarrow> seekable s)
            | _ \<Rightarrow> (\<forall>s. read_attr ob = Some s \<longrightarrow> seekable s))"
  shows "fst (infer_size fs file) = Inr (length b)"
proof (cases "file")
  case (PathLike p)
  with assms(1) show ?thesis by (simp add: source_bytes_def infer_size_def getsize_def)
next
  case (BytesLike b')
  with assms(1) show ?thesis by (simp add: source_bytes_def infer_size_def)
next
  case (FileObj ob)
  with assms(1) obtain s where s: "read_attr ob = Some s" "content s = PyBytes b" "pos s = 0"
    by (auto simp: source_bytes_def split: option.splits pydata.splits if_splits)
  from assms(2) FileObj s show ?thesis
    by (auto simp: infer_size_def stream_read_def stream_seek0_def Let_def
          split: option.splits fileno_result.splits)
qed

text \<open>
  Claim C5 (chunk-size bound). The claim says that every chunk but the last has exactly
  \<open>part_size\<close> bytes. It does not for a source whose \<open>read\<close> falls short: the loop
  sends whatever \<open>read(part_size)\<close> returns. An unbuffered pipe that delivers nine bytes
  three at a time, uploaded with a part size of 8, gives three parts of 3 bytes.
\<close>

theorem chunk_size_bound_counterexample:
  "byte_source (FileObj (sample_pipe [1, 2, 3, 4, 5, 6, 7, 8, 9] [3, 3, 3])) \<and>
   sent_chunks (new_calls sample_client (snd (multipart_upload sample_runtime (\<lambda>p. None)
      sample_post (FileObj (sample_pipe [1, 2, 3, 4, 5, 6, 7, 8, 9] [3, 3, 3]))
      ''assistants'' ''text/plain'' None 8 JNull None sample_client)))
     = [[1, 2, 3], [4, 5, 6], [7, 8, 9]] \<and>
   map length (butlast (sent_chunks (new_calls sample_client (snd (multipart_upload
      sample_runtime (\<lambda>p. None)
      sample_post (FileObj (sample_pipe [1, 2, 3, 4, 5, 6, 7, 8, 9] [3, 3, 3]))
      ''assistants'' ''text/plain'' None 8 JNull None sample_client)))))
     = [3, 3]"
  by (simp add: sample_eval byte_source_def new_calls_def sent_chunks_def request_chunks_def)

text \<open>
  Claim C5, amended. For every byte source (a path, in-memory bytes, or an object whose
  \<open>read\<close> returns bytes, at most as many as asked for) and every positive \<open>part_size\<close>,
  every chunk that \<open>multipart_upload\<close> passes to \<open>add_upload_part\<close> (each is sent as
  one form-data request, so these are the chunks of the requests logged during the call)
  has at most \<open>part_size\<close> bytes; and when the reads of the source are full (a path,
  in-memory bytes, a buffered file), every chunk but the last has exactly \<open>part_size\<close>
  bytes. This holds whether the call succeeds or fails on the way.
\<close>

theorem chunk_size_bound:
  assumes "0 < part_size" and "byte_source file"
    and "multipart_upload rt fs post file purpose mime filename part_size ea md5 c = (r, c')"
  shows "(\<forall>ch \<in> set (sent_chunks (new_calls c c')). length ch \<le> nat part_size) \<and>
         (full_reads file \<longrightarrow>
            (\<forall>ch \<in> set (butlast (sent_chunks (new_calls c c'))). length ch = nat part_size))"
proof -
  obtain k s bs where
    sc: "sent_chunks (new_calls c c') = take k (map pydata_bytes (stream_chunks part_size s))"
    and bs: "content s = PyBytes bs" and fr: "full_reads file \<longrightarrow> short_reads s = []"
    using sent_chunks_of_run [OF assms(2,3)] by blast
  have le: "\<forall>ch \<in> set (sent_chunks (new_calls c c')). length ch \<le> nat part_size"
  proof
    fix ch
    assume "ch \<in> set (sent_chunks (new_calls c c'))"
    then have "ch \<in> set (map pydata_bytes (stream_chunks part_size s))"
      unfolding sc by (rule in_set_takeD)
    then obtain x where x: "x \<in> set (stream_chunks part_size s)" "ch = pydata_bytes x"
      by auto
    from stream_chunks_le [OF assms(1) x(1)] pydata_bytes_le [of x] x(2)
    show "length ch \<le> nat part_size" by simp
  qed
  have ex: "full_reads file \<longrightarrow>
            (\<forall>ch \<in> set (butlast (sent_chunks (new_calls c c'))). length ch = nat part_size)"
  proof
    assume "full_reads file"
    with fr have "short_reads s = []" by simp
    then have "map pydata_bytes (stream_chunks part_size s) =
                 chunks_of (nat part_size) (drop (pos s) bs)"
      using stream_chunks_full [OF bs _ assms(1)] by simp
    then have "sent_chunks (new_calls c c') =
                 take k (chunks_of (nat part_size) (drop (pos s) bs))"
      using sc by simp
    then show "\<forall>ch \<in> set (butlast (sent_chunks (new_calls c c'))). length ch = nat part_size"
      using prefix_chunk_bounds by blast
  qed
  from le ex show ?thesis by (rule conjI)
qed

theorem chunk_size_bound_witness:
  "0 < (2 :: int) \<and> byte_source (BytesLike [1, 2, 3, 4, 5]) \<and>
   full_reads (BytesLike [1, 2, 3, 4, 5]) \<and>
   sent_chunks (new_calls sample_client (snd (multipart_upload sample_runtime (\<lambda>p. None) sample_post
      (BytesLike [1, 2, 3, 4, 5]) ''assistants'' ''text/plain'' None 2 JNull None sample_client)))
     = [[1, 2], [3, 4], [5]] \<and>
   list_all (\<lambda>ch. length ch \<le> 2)
     (sent_chunks (new_calls sample_client (snd (multipart_upload sample_runtime (\<lambda>p. None) sample_post
        (BytesLike [1, 2, 3, 4, 5]) ''assistants'' ''text/plain'' None 2 JNull None sample_client)))) \<and>
   list_all (\<lambda>ch. length ch = 2)
     (butlast (sent_chunks (new_calls sample_client (snd (multipart_upload sample_runtime (\<lambda>p. None) sample_post
        (BytesLike [1, 2, 3, 4, 5]) ''assistants'' ''text/plain'' None 2 JNull None sample_client)))))"
proof -
  let ?run = "multipart_upload sample_runtime (\<lambda>p. None) sample_post
      (BytesLike [1, 2, 3, 4, 5]) ''assistants'' ''text/plain'' None 2 JNull None sample_client"
  have h1: "0 < (2 :: int)" by simp
  have h2: "byte_source (BytesLike [1, 2, 3, 4, 5])" by (simp add: byte_source_def)
  have h3: "?run = (fst ?run, snd ?run)" by simp
  have h4: "full_reads (BytesLike [1, 2, 3, 4, 5])" by (simp add: full_reads_def)
  have ev: "sent_chunks (new_calls sample_client (snd ?run)) = [[1, 2], [3, 4], [5]]"
    unfolding run_small
    by (simp add: new_calls_def sample_client_def sent_chunks_def request_chunks_def
          part_request_def complete_request_def BytesIO_def)
  from chunk_size_bound [OF h1 h2 h3] h4
  have "list_all (\<lambda>ch. length ch \<le> 2) (sent_chunks (new_calls sample_client (snd ?run)))"
    and "list_all (\<lambda>ch. length ch = 2) (butlast (sent_chunks (new_calls sample_client (snd ?run))))"
    by (simp_all add: list_all_iff)
  with h1 h2 h4 ev show ?thesis by blast
qed

text \<open>
  Claim C6 (part ids in order). The claim says that a 150 MiB source with a part size of
  64 MiB gives exactly three part requests of 64 MiB, 64 MiB and 22 MiB. It does not for a
  source whose \<open>read\<close> falls short: an unbuffered stream that delivers 150 MiB and
  returns at most 32 MiB from a read gives five part requests, four of 32 MiB and one of
  22 MiB, and the call returns a file.
\<close>

theorem part_ids_in_order_counterexample:
  "length (replicate 157286400 (0 :: byte)) = 150 * 1024 * 1024 \<and>
   nat default_part_size = 64 * 1024 * 1024 \<and>
   map_sum id f_id (fst (multipart_upload sample_runtime (\<lambda>p. None) sample_post
      (FileObj (sample_pipe (replicate 157286400 0)
                  [33554432, 33554432, 33554432, 33554432, 33554432]))
      ''assistants'' ''application/octet-stream'' None default_part_size JNull None
      sample_client)) = Inr (JStr ''file_1'') \<and>
   map length (sent_chunks (new_calls sample_client (snd (multipart_upload sample_runtime
      (\<lambda>p. None) sample_post
      (FileObj (sample_pipe (replicate 157286400 0)
                  [33554432, 33554432, 33554432, 33554432, 33554432]))
      ''assistants'' ''application/octet-stream'' None default_part_size JNull None
      sample_client))))
     = [33554432, 33554432, 33554432, 33554432, 23068672]"
  by (simp add: sample_eval new_calls_def sent_chunks_def request_chunks_def)

text \<open>
  Claim C6, amended. When \<open>multipart_upload\<close> returns a file for a byte source, the
  requests it made are: the create request, one part request for each chunk in reading
  order, and one complete request whose \<open>part_ids\<close> are the ids of the part responses in
  that same order. When the reads of the source are full and it stands at its start
  holding the bytes \<open>b\<close>, the chunks are the pieces of \<open>part_size\<close> bytes of \<open>b\<close>; for
  150 MiB and a part size of 64 MiB they have 64 MiB, 64 MiB and 22 MiB, so there are
  exactly three part requests.
\<close>

theorem part_ids_in_order:
  assumes "0 < part_size" and "byte_source file"
    and "multipart_upload rt fs post file purpose mime filename part_size ea md5 c = (Inr f, c')"
  shows "\<exists>creq r0 uid chunks resps r1.
           req_path creq = ''/v1/uploads'' \<and>
           py_str rt (response_id r0) = Inr uid \<and>
           length resps = length chunks \<and>
           new_calls c c' =
             (creq, r0) #
             zip (map (part_request uid) chunks) resps @
             [(complete_request uid (map response_id resps) md5, r1)] \<and>
           (\<forall>b. full_reads file \<and> source_bytes fs file = Some b \<longrightarrow>
              chunks = chunks_of (nat part_size) b \<and>
              (part_size = default_part_size \<and> length b = 150 * 1024 * 1024 \<longrightarrow>
                 map length chunks = [67108864, 67108864, 23068672]))"
proof -
  obtain ri file1 where inf: "infer_size fs file = (ri, file1)"
    by (cases "infer_size fs file") blast
  have ri: "\<exists>sz. ri = Inr sz"
  proof (cases ri)
    case (Inl e)
    then show ?thesis
      using multipart_upload_early_failure [OF assms(3), of e] inf by simp
  next
    case (Inr sz)
    then show ?thesis by blast
  qed
  then obtain sz where inf': "infer_size fs file = (Inr sz, file1)" using inf by blast
  have "\<exists>fobj. coerce_file fs file1 = Inr fobj"
  proof (cases "coerce_file fs file1")
    case (Inl e)
    then show ?thesis
      using multipart_upload_early_failure [OF assms(3), of e] inf' by simp
  next
    case (Inr fobj)
    then show ?thesis by blast
  qed
  then obtain fobj where co: "coerce_file fs file1 = Inr fobj" by blast
  obtain s bs where s: "read_attr fobj = Some s" "content s = PyBytes bs"
    and fr: "full_reads file \<longrightarrow> short_reads s = []"
    and sb: "\<forall>b. source_bytes fs file = Some b \<longrightarrow> bs = b \<and> pos s = 0"
    using coerce_after_infer [OF assms(2) inf' co] by blast
  define chunks where "chunks = map pydata_bytes (stream_chunks part_size s)"
  have lc: "length chunks = length (stream_chunks part_size s)"
    by (simp add: chunks_def)
  obtain creq r0 uid resps r1 where creq: "req_path creq = ''/v1/uploads''"
    and uid: "py_str rt (response_id r0) = Inr uid"
    and len: "length resps = length chunks"
    and cl: "calls c' = calls c @ (creq, r0) #
                   zip (map (part_request uid) chunks) resps @
                   [(complete_request uid (map response_id resps) md5, r1)]"
  proof -
    from multipart_upload_run [OF inf' co s assms(3)]
    obtain creq r0 uid resps where a: "req_path creq = ''/v1/uploads''"
      and b: "(calls c' = calls c @ (creq, r0) # zip (map (part_request uid) chunks) resps \<and>
             (\<forall>f'. Inr f \<noteq> (Inr f' :: error + File)))
            \<or> (py_str rt (response_id r0) = Inr uid \<and>
                length resps = length (stream_chunks part_size s) \<and>
                (\<exists>r1. calls c' = calls c @ (creq, r0) #
                   zip (map (part_request uid) chunks) resps @
                   [(complete_request uid (map response_id resps) md5, r1)]))"
      unfolding chunks_def by blast
    from b have "py_str rt (response_id r0) = Inr uid \<and>
                length resps = length (stream_chunks part_size s) \<and>
                (\<exists>r1. calls c' = calls c @ (creq, r0) #
                   zip (map (part_request uid) chunks) resps @
                   [(complete_request uid (map response_id resps) md5, r1)])"
      by blast
    then obtain r1 where
      "py_str rt (response_id r0) = Inr uid"
      "length resps = length chunks"
      "calls c' = calls c @ (creq, r0) #
                   zip (map (part_request uid) chunks) resps @
                   [(complete_request uid (map response_id resps) md5, r1)]"
      unfolding lc by blast
    with a show ?thesis by (rule that)
  qed
  have sc: "\<forall>b. full_reads file \<and> source_bytes fs file = Some b \<longrightarrow>
              chunks = chunks_of (nat part_size) b \<and>
              (part_size = default_part_size \<and> length b = 150 * 1024 * 1024 \<longrightarrow>
                 map length chunks = [67108864, 67108864, 23068672])"
  proof (intro allI impI)
    fix b
    assume h: "full_reads file \<and> source_bytes fs file = Some b"
    with fr sb have sr: "short_reads s = []" and b: "bs = b" and p: "pos s = 0" by simp_all
    have "chunks = chunks_of (nat part_size) (drop (pos s) bs)"
      unfolding chunks_def by (rule stream_chunks_full [OF s(2) sr assms(1)])
    with b p have eq: "chunks = chunks_of (nat part_size) b" by simp
    have "part_size = default_part_size \<and> length b = 150 * 1024 * 1024 \<longrightarrow>
            map length chunks = [67108864, 67108864, 23068672]"
      unfolding eq using scenario_150 by blast
    with eq show "chunks = chunks_of (nat part_size) b \<and>
              (part_size = default_part_size \<and> length b = 150 * 1024 * 1024 \<longrightarrow>
                 map length chunks = [67108864, 67108864, 23068672])"
      by (rule conjI)
  qed
  have nc: "new_calls c c' =
             (creq, r0) #
             zip (map (part_request uid) chunks) resps @
             [(complete_request uid (map response_id resps) md5, r1)]"
    by (rule new_calls_append [OF cl])
  show ?thesis
  proof (rule exI [of _ creq], rule exI [of _ r0], rule exI [of _ uid], rule exI [of _ chunks],
         rule exI [of _ resps], rule exI [of _ r1], intro conjI)
    show "req_path creq = ''/v1/uploads''" by (rule creq)
    show "py_str rt (response_id r0) = Inr uid" by (rule uid)
    show "length resps = length chunks" by (rule len)
    show "new_calls c c' =
             (creq, r0) #
             zip (map (part_request uid) chunks) resps @
             [(complete_request uid (map response_id resps) md5, r1)]"
      by (rule nc)
    show "\<forall>b. full_reads file \<and> source_bytes fs file = Some b \<longrightarrow>
              chunks = chunks_of (nat part_size) b \<and>
              (part_size = default_part_size \<and> length b = 150 * 1024 * 1024 \<longrightarrow>
                 map length chunks = [67108864, 67108864, 23068672])"
      by (rule sc)
  qed
qed

theorem part_ids_in_order_witness:
  "0 < default_part_size \<and>
   byte_source (BytesLike (replicate 157286400 0)) \<and>
   full_reads (BytesLike (replicate 157286400 0)) \<and>
   source_bytes (\<lambda>p. None) (BytesLike (replicate 157286400 0)) = Some (replicate 157286400 0) \<and>
   (\<exists>f c'. multipart_upload sample_runtime (\<lambda>p. None) sample_post (BytesLike (replicate 157286400 0))
              ''assistants'' ''application/octet-stream'' None default_part_size JNull None
              sample_client = (Inr f, c') \<and>
      f_bytes f = 150 * 1024 * 1024 \<and>
      (\<exists>creq r0 uid resps r1.
          req_path creq = ''/v1/uploads'' \<and> length resps = 3 \<and>
          new_calls sample_client c' =
             (creq, r0) #
             zip (map (part_request uid)
                    [replicate 67108864 0, replicate 67108864 0, replicate 23068672 0]) resps @
             [(complete_request uid (map response_id resps) None, r1)]) \<and>
      map fst (tl (new_calls sample_client c')) =
        [part_request ''upload_1'' (replicate 67108864 0),
         part_request ''upload_1'' (replicate 67108864 0),
         part_request ''upload_1'' (replicate 23068672 0),
         complete_request ''upload_1''
           [JStr ''part_1'', JStr ''part_2'', JStr ''part_3''] None])"
proof -
  let ?src = "BytesLike (replicate 157286400 (0 :: byte))"
  let ?c' = "\<lparr> server = [67108864, 67108864, 23068672 :: nat],
      calls =
       [(\<lparr> req_path = ''/v1/uploads'',
            req_body = JsonBody (JObj [(''purpose'', JStr ''assistants''),
                         (''filename'', JStr ''upload.bin''), (''bytes'', JInt 157286400),
                         (''mime_type'', JStr ''application/octet-stream'')]) \<rparr>,
         Inr (JObj (sample_upload ''pending''))),
        (part_request ''upload_1'' (replicate 67108864 0),
         Inr (JObj [(''id'', JStr ''part_1''), (''object'', JStr ''upload.part''),
                    (''created_at'', JInt 1700000001), (''upload_id'', JStr ''upload_1'')])),
        (part_request ''upload_1'' (replicate 67108864 0),
         Inr (JObj [(''id'', JStr ''part_2''), (''object'', JStr ''upload.part''),
                    (''created_at'', JInt 1700000001), (''upload_id'', JStr ''upload_1'')])),
        (part_request ''upload_1'' (replicate 23068672 0),
         Inr (JObj [(''id'', JStr ''part_3''), (''object'', JStr ''upload.part''),
                    (''created_at'', JInt 1700000001), (''upload_id'', JStr ''upload_1'')])),
        (complete_request ''upload_1''
           [JStr ''part_1'', JStr ''part_2'', JStr ''part_3''] None,
         Inr (JObj (sample_upload ''completed'' @
                   [(''file'', JObj [(''id'', JStr ''file_1''), (''object'', JStr ''file''),
                                     (''bytes'', JInt 157286400),
                                     (''created_at'', JInt 1700000002),
                                     (''filename'', JStr ''upload.bin''),
                                     (''purpose'', JStr ''assistants'')])])))] \<rparr>"
  have h1: "0 < default_part_size" by (simp add: default_part_size_def)
  have h0: "byte_source ?src" by (simp add: byte_source_def)
  have h3: "full_reads ?src" by (simp add: full_reads_def)
  have h2: "source_bytes (\<lambda>p. None) ?src = Some (replicate 157286400 0)"
    by (simp add: source_bytes_def)
  have ch: "chunks_of (nat default_part_size) (replicate 157286400 (0 :: byte)) =
              [replicate 67108864 0, replicate 67108864 0, replicate 23068672 0]"
    by (simp add: chunks_of.simps default_part_size_def)
  note run = run_150
  from part_ids_in_order [OF h1 h0 run]
  obtain creq r0 uid chunks resps r1 where p1: "req_path creq = ''/v1/uploads''"
    and p3: "length resps = length chunks"
    and p4: "new_calls sample_client ?c' =
             (creq, r0) # zip (map (part_request uid) chunks) resps @
             [(complete_request uid (map response_id resps) None, r1)]"
    and p5: "\<forall>b. full_reads ?src \<and> source_bytes (\<lambda>p. None) ?src = Some b \<longrightarrow>
              chunks = chunks_of (nat default_part_size) b \<and>
              (default_part_size = default_part_size \<and> length b = 150 * 1024 * 1024 \<longrightarrow>
                 map length chunks = [67108864, 67108864, 23068672])"
    by (elim exE conjE) (rule that)
  from p5 h3 h2 have "chunks = chunks_of (nat default_part_size) (replicate 157286400 0)"
    by blast
  then have chunks: "chunks = [replicate 67108864 0, replicate 67108864 0, replicate 23068672 0]"
    by (simp only: ch)
  from p3 have l3: "length resps = 3" by (simp add: chunks)
  have a: "\<exists>creq r0 uid resps r1.
          req_path creq = ''/v1/uploads'' \<and> length resps = 3 \<and>
          new_calls sample_client ?c' =
             (creq, r0) #
             zip (map (part_request uid)
                    [replicate 67108864 0, replicate 67108864 0, replicate 23068672 0]) resps @
             [(complete_request uid (map response_id resps) None, r1)]"
  proof (rule exI [of _ creq], rule exI [of _ r0], rule exI [of _ uid], rule exI [of _ resps],
         rule exI [of _ r1], intro conjI)
    show "req_path creq = ''/v1/uploads''" by (rule p1)
    show "length resps = 3" by (rule l3)
    show "new_calls sample_client ?c' =
             (creq, r0) #
             zip (map (part_request uid)
                    [replicate 67108864 0, replicate 67108864 0, replicate 23068672 0]) resps @
             [(complete_request uid (map response_id resps) None, r1)]"
      using p4 unfolding chunks .
  qed
  show ?thesis
    apply (intro conjI)
        apply (rule h1)
       apply (rule h0)
      apply (rule h3)
     apply (rule h2)
    apply (subst run)
    apply (rule exI, rule exI, intro conjI)
       apply (rule refl)
      apply simp
     apply (rule a)
    apply (simp add: new_calls_def sample_client_def)
    done
qed

text \<open>
  Claim C7 (completion without a file is fatal). When a run of \<open>multipart_upload\<close> has
  inferred the size, opened the source, created the upload and added the parts, and
  \<open>complete_upload\<close> returns an upload: if that upload carries no file the call raises
  and never returns, and if it carries one the call returns exactly that file. The
  exception is \<open>RuntimeError\<close>, whose message holds the id of the upload; should printing
  that id raise, it is the exception of \<open>str\<close>.
\<close>

theorem missing_file_is_fatal:
  assumes "infer_size fs file = (Inr sz, file1)"
    and "coerce_file fs file1 = Inr fobj"
    and "read_attr fobj = Some s"
    and "create_upload rt post (int sz)
           (case filename of Some n \<Rightarrow> n
            | None \<Rightarrow> (case name_attr fobj of Some n \<Rightarrow> n | None \<Rightarrow> ''upload.bin''))
           mime purpose ea c = (Inr upload, c1)"
    and "add_parts rt fs post (u_id upload) part_size s [] c1 = (Inr part_ids, s', c2)"
    and "complete_upload rt post (u_id upload) part_ids md5 c2 = (Inr final_upload, c3)"
  shows "multipart_upload rt fs post file purpose mime filename part_size ea md5 c =
           (case u_file final_upload of
              None \<Rightarrow> Inl (case py_str rt (u_id final_upload) of
                             Inl e \<Rightarrow> e
                           | Inr uid \<Rightarrow> RuntimeError (''Upload '' @ uid
                                          @ '' completed but no file was returned.''))
            | Some f \<Rightarrow> Inr f,
            c3)"
  using assms by (simp add: multipart_upload_def split: option.split sum.split)

theorem missing_file_is_fatal_witness:
  "multipart_upload sample_runtime (\<lambda>p. None) sample_post_no_file (BytesLike [])
      ''assistants'' ''text/plain'' None default_part_size JNull None
      \<lparr> server = (), calls = [] \<rparr> =
     (Inl (RuntimeError ''Upload upload_1 completed but no file was returned.''),
      \<lparr> server = (),
        calls = [(\<lparr> req_path = ''/v1/uploads'',
                    req_body = JsonBody (JObj [(''purpose'', JStr ''assistants''),
                         (''filename'', JStr ''upload.bin''), (''bytes'', JInt 0),
                         (''mime_type'', JStr ''text/plain'')]) \<rparr>,
                  Inr (JObj (sample_upload ''completed''))),
                 (complete_request ''upload_1'' [] None,
                  Inr (JObj (sample_upload ''completed'')))] \<rparr>) \<and>
   (\<exists>f c'. multipart_upload sample_runtime (\<lambda>p. None) sample_post (BytesLike [])
      ''assistants'' ''text/plain'' None default_part_size JNull None sample_client = (Inr f, c')
      \<and> f_id f = JStr ''file_1'')"
proof -
  define up where "up = \<lparr> u_id = JStr ''upload_1'', u_object = JStr ''upload'', u_bytes = 0,
      u_created_at = 1700000000, u_filename = JStr ''upload.bin'',
      u_purpose = JStr ''assistants'', u_status = JStr ''completed'',
      u_expires_at = 1700003600, u_file = None, u_raw = sample_upload ''completed'' \<rparr>"
  define creq where "creq = \<lparr> req_path = ''/v1/uploads'',
                    req_body = JsonBody (JObj [(''purpose'', JStr ''assistants''),
                         (''filename'', JStr ''upload.bin''), (''bytes'', JInt 0),
                         (''mime_type'', JStr ''text/plain'')]) \<rparr>"
  define s0 where "s0 = \<lparr> content = PyBytes [], pos = 0, seekable = True, short_reads = [] \<rparr>"
  define c1 :: "unit client" where
    "c1 = \<lparr> server = (), calls = [(creq, Inr (JObj (sample_upload ''completed'')))] \<rparr>"
  define c3 :: "unit client" where
    "c3 = \<lparr> server = (), calls = [(creq, Inr (JObj (sample_upload ''completed''))),
             (complete_request ''upload_1'' [] None,
              Inr (JObj (sample_upload ''completed'')))] \<rparr>"
  have p1: "infer_size (\<lambda>p. None) (BytesLike []) = (Inr 0, BytesLike [])"
    by (simp add: infer_size_def)
  have p2: "coerce_file (\<lambda>p. None) (BytesLike []) = Inr (BytesIO [])"
    by (simp add: coerce_file_def)
  have p3: "read_attr (BytesIO []) = Some s0"
    by (simp add: BytesIO_def s0_def)
  have p4: "create_upload sample_runtime sample_post_no_file (int 0)
           (case None of Some n \<Rightarrow> n
            | None \<Rightarrow> (case name_attr (BytesIO []) of Some n \<Rightarrow> n | None \<Rightarrow> ''upload.bin''))
           ''text/plain'' ''assistants'' JNull \<lparr> server = (), calls = [] \<rparr> = (Inr up, c1)"
    by (simp add: sample_eval sample_post_no_file_def up_def c1_def creq_def)
  have p5: "add_parts sample_runtime (\<lambda>p. None) sample_post_no_file (u_id up) default_part_size s0 [] c1
              = (Inr [], s0, c1)"
    by (simp add: sample_eval s0_def)
  have p6: "complete_upload sample_runtime sample_post_no_file (u_id up) [] None c1 = (Inr up, c3)"
    by (simp add: sample_eval sample_post_no_file_def up_def c1_def c3_def creq_def
          complete_request_def)
  have a: "multipart_upload sample_runtime (\<lambda>p. None) sample_post_no_file (BytesLike [])
      ''assistants'' ''text/plain'' None default_part_size JNull None
      \<lparr> server = (), calls = [] \<rparr> =
     (Inl (RuntimeError ''Upload upload_1 completed but no file was returned.''), c3)"
    using missing_file_is_fatal [OF p1 p2 p3 p4 p5 p6]
    by (simp add: up_def py_str_def)
  have b: "\<exists>f c'. multipart_upload sample_runtime (\<lambda>p. None) sample_post (BytesLike [])
      ''assistants'' ''text/plain'' None default_part_size JNull None sample_client = (Inr f, c')
      \<and> f_id f = JStr ''file_1''"
    by (simp add: sample_eval)
  from a b show ?thesis by (simp add: c3_def creq_def)
qed




text \<open>
  Claim C9 (the declared size is the total size of the source). This fails for a file
  object that does not stand at its start and has no usable descriptor: \<open>_infer_size\<close>
  measures from the current position and then rewinds to the start. For
  an \<open>io.BytesIO\<close> over five bytes, after \<open>read(2)\<close>, the declared size is 3, and the
  one part that is sent holds all 5 bytes.
\<close>

theorem declared_size_ignores_position:
  "infer_size (\<lambda>p. None)
     (FileObj ((BytesIO [1, 2, 3, 4, 5])
        \<lparr> read_attr := Some \<lparr> content = PyBytes [1, 2, 3, 4, 5], pos = 2, seekable = True,
                               short_reads = [] \<rparr> \<rparr>))
     = (Inr 3, FileObj (BytesIO [1, 2, 3, 4, 5])) \<and>
   map fst (calls (snd (multipart_upload sample_runtime (\<lambda>p. None) sample_post
     (FileObj ((BytesIO [1, 2, 3, 4, 5])
        \<lparr> read_attr := Some \<lparr> content = PyBytes [1, 2, 3, 4, 5], pos = 2, seekable = True,
                               short_reads = [] \<rparr> \<rparr>))
     ''assistants'' ''text/plain'' None default_part_size JNull None sample_client))) =
     [\<lparr> req_path = ''/v1/uploads'',
        req_body = JsonBody (JObj [(''purpose'', JStr ''assistants''),
                     (''filename'', JStr ''upload.bin''), (''bytes'', JInt 3),
                     (''mime_type'', JStr ''text/plain'')]) \<rparr>,
      part_request ''upload_1'' [1, 2, 3, 4, 5],
      complete_request ''upload_1'' [JStr ''part_1''] None]"
  by (simp add: sample_eval part_request_def complete_request_def)

end
